theory Spec2Isabelle
  imports Complex_Main
begin

section \<open>RightLight: trip-point interpolation and transition scheduling\<close>

text \<open>
  A shallow embedding of \<^verbatim>\<open>custom_components/right_light/right_light.py\<close>.

  Conventions of the model:
  \<^item> a \<^verbatim>\<open>datetime\<close> is an integer number of microseconds of local wall-clock time,
    a \<^verbatim>\<open>timedelta\<close> an integer number of microseconds (the resolution of both
    Python types);
  \<^item> Python floats are modelled as exact rationals: the model says which formula
    is computed, not how it is rounded;
  \<^item> the attributes of the object and the effects on its collaborators (the
    service calls issued, the tasks created on the event loop, the tasks
    cancelled) are fields of one record that every method takes and returns;
  \<^item> a raised exception is a value of type \<open>error\<close>; logging is left out;
  \<^item> a call runs to its end before the next one starts: a task created on the event
    loop is recorded with its delay and what it will run, and runs only when
    \<open>delay_run\<close> is applied to it.
\<close>

subsection \<open>Time\<close>

type_synonym datetime = int
type_synonym timedelta = int

definition day_us :: int where
  "day_us = 86400000000"

definition timedelta_minutes :: "int \<Rightarrow> timedelta" where
  "timedelta_minutes m = m * 60000000"

text \<open>\<^verbatim>\<open>td.seconds\<close>: the seconds field of the normalised timedelta (days, seconds,
  microseconds), which lies in 0..86399 also for a negative duration.\<close>

definition td_seconds :: "timedelta \<Rightarrow> int" where
  "td_seconds d = (d div 1000000) mod 86400"

text \<open>\<^verbatim>\<open>t.replace(day=n.day, month=n.month, year=n.year)\<close>\<close>

definition replace_date :: "datetime \<Rightarrow> datetime \<Rightarrow> datetime" where
  "replace_date t n = (n div day_us) * day_us + t mod day_us"

text \<open>\<^verbatim>\<open>n.replace(microsecond=0, second=sec, minute=m, hour=h)\<close>\<close>

definition replace_time :: "datetime \<Rightarrow> int \<Rightarrow> int \<Rightarrow> int \<Rightarrow> datetime" where
  "replace_time n h m sec = (n div day_us) * day_us + ((h * 60 + m) * 60 + sec) * 1000000"

subsection \<open>Data\<close>

datatype error = KeyError | IndexError | ZeroDivisionError | UnboundLocalError

text \<open>A trip point \<^verbatim>\<open>[timestamp, value]\<close>; the value is the list \<^verbatim>\<open>[kelvin, brightness]\<close>
  or \<^verbatim>\<open>[r, g, b]\<close>.\<close>

type_synonym keypoint = "datetime \<times> int list"

text \<open>The keyword arguments of \<^verbatim>\<open>turn_on\<close>; \<open>None\<close> is an absent key.\<close>

record kwargs =
  kw_nocancel :: "bool option"
  kw_mode :: "string option"
  kw_brightness :: "int option"
  kw_brightness_override :: "int option"
  kw_transition :: "rat option"

definition kwargs_get :: "'a option \<Rightarrow> 'a \<Rightarrow> 'a" where
  "kwargs_get v dflt = (case v of None \<Rightarrow> dflt | Some x \<Rightarrow> x)"

text \<open>The service data of a \<^verbatim>\<open>light.turn_on\<close> call carries either \<^verbatim>\<open>kelvin\<close> or
  \<^verbatim>\<open>rgb_color\<close>.\<close>

datatype colour = Kelvin rat | Rgb_color "rat list"

datatype call =
  Light_turn_on string rat colour rat
| Light_turn_off string rat

text \<open>What \<^verbatim>\<open>delay_run(seconds, coro, ...)\<close> runs after its sleep: a service call or
  \<^verbatim>\<open>turn_on\<close> again.\<close>

datatype task =
  Delay_call int call
| Delay_turn_on int kwargs

text \<open>A task handle is the index of the task in the list of tasks created so far.\<close>

record state =
  entity :: string
  debug :: int
  mode :: string
  today :: "int option"
  trip_points :: "string \<rightharpoonup> keypoint list"
  brightness :: int
  brightness_override :: int
  on_transition :: rat
  off_transition :: rat
  currSched :: "nat list"
  now :: datetime
  sunrise :: datetime
  sunset :: datetime
  midnight_early :: datetime
  ten_thirty :: datetime
  midnight_late :: datetime
  calls :: "call list"
  tasks :: "task list"
  cancelled :: "nat list"

text \<open>What the clock, the solar source and the random generator answer during one
  call of \<^verbatim>\<open>turn_on\<close>.\<close>

record env =
  clock_now :: datetime
  clock_today :: int
  sun_rise :: datetime
  sun_set :: datetime
  randrange_1_5 :: int

definition ct_high :: rat where
  "ct_high = 5000"

definition ct_scalar :: rat where
  "ct_scalar = 35 / 100"

definition br_over_ct_mult :: rat where
  "br_over_ct_mult = 6"

subsection \<open>Python list indexing\<close>

definition py_get :: "'a list \<Rightarrow> int \<Rightarrow> error + 'a" where
  "py_get xs i =
     (if 0 \<le> i \<and> i < int (length xs) then Inr (xs ! nat i)
      else if i < 0 \<and> - int (length xs) \<le> i then Inr (xs ! nat (int (length xs) + i))
      else Inl IndexError)"

definition bind_err :: "error + 'a \<Rightarrow> ('a \<Rightarrow> error + 'b) \<Rightarrow> error + 'b" where
  "bind_err r f = (case r of Inl e \<Rightarrow> Inl e | Inr x \<Rightarrow> f x)"

subsection \<open>The pending-schedule collection\<close>

function cancelSched :: "state \<Rightarrow> state" where
  "cancelSched s =
     (case currSched s of
        [] \<Rightarrow> s
      | ret # rest \<Rightarrow> cancelSched (s\<lparr>currSched := rest, cancelled := cancelled s @ [ret]\<rparr>))"
  by pat_completeness auto
termination
  by (relation "measure (\<lambda>s. length (currSched s))") auto

declare cancelSched.simps [simp del]

definition addSched :: "nat \<Rightarrow> state \<Rightarrow> state" where
  "addSched ret s = s\<lparr>currSched := currSched s @ [ret]\<rparr>"

text \<open>\<^verbatim>\<open>self._hass.loop.create_task(self.delay_run(...))\<close>\<close>

definition create_task :: "task \<Rightarrow> state \<Rightarrow> nat \<times> state" where
  "create_task t s = (length (tasks s), s\<lparr>tasks := tasks s @ [t]\<rparr>)"

text \<open>\<^verbatim>\<open>await self._hass.services.async_call(...)\<close>; the call is taken to succeed.\<close>

definition async_call :: "call \<Rightarrow> state \<Rightarrow> state" where
  "async_call c s = s\<lparr>calls := calls s @ [c]\<rparr>"

definition disable :: "state \<Rightarrow> state" where
  "disable s = cancelSched s"

definition disable_and_turn_off :: "kwargs \<Rightarrow> state \<Rightarrow> state" where
  "disable_and_turn_off kw s =
     (let s1 = cancelSched s;
          s2 = s1\<lparr>brightness := 0\<rparr>
      in async_call (Light_turn_off (entity s2)
           (kwargs_get (kw_transition kw) (off_transition s2))) s2)"

subsection \<open>Curve builder\<close>

text \<open>The \<^verbatim>\<open>while temp < self.midnight_late\<close> loop of \<^verbatim>\<open>enumerateTripPoints\<close>.
  The result \<open>None\<close> is a loop that never ends.\<close>

partial_function (option) enumerate_loop ::
  "datetime \<Rightarrow> timedelta \<Rightarrow> int list list \<Rightarrow> datetime \<Rightarrow> nat \<Rightarrow> keypoint list
     \<Rightarrow> (error + keypoint list) option" where
  "enumerate_loop late time_step tps temp this_ptr toreturn =
     (if temp < late then
        (if this_ptr < length tps then
           enumerate_loop late time_step tps (temp + time_step)
             (if this_ptr + 1 \<ge> length tps then 0 else this_ptr + 1)
             (toreturn @ [(temp, tps ! this_ptr)])
         else Some (Inl IndexError))
      else Some (Inr toreturn))"

declare enumerate_loop.simps [code]

definition enumerateTripPoints ::
  "state \<Rightarrow> timedelta \<Rightarrow> int list list \<Rightarrow> (error + keypoint list) option" where
  "enumerateTripPoints s time_step tps =
     enumerate_loop (midnight_late s) time_step tps (midnight_early s) 0 []"

text \<open>The outcome of a method that may raise after it has changed the object: the
  exception, if any, and the state it leaves; \<open>None\<close> when it does not return.\<close>

type_synonym outcome = "(error option \<times> state) option"

definition and_then :: "outcome \<Rightarrow> (state \<Rightarrow> outcome) \<Rightarrow> outcome" where
  "and_then r f =
     (case r of
        None \<Rightarrow> None
      | Some (Some e, s) \<Rightarrow> Some (Some e, s)
      | Some (None, s) \<Rightarrow> f s)"

text \<open>\<^verbatim>\<open>self.trip_points[name] = self.enumerateTripPoints(time_step, tps)\<close>\<close>

definition set_enumerated :: "string \<Rightarrow> timedelta \<Rightarrow> int list list \<Rightarrow> state \<Rightarrow> outcome" where
  "set_enumerated name time_step tps s =
     (case enumerateTripPoints s time_step tps of
        None \<Rightarrow> None
      | Some (Inl e) \<Rightarrow> Some (Some e, s)
      | Some (Inr c) \<Rightarrow> Some (None, s\<lparr>trip_points := (trip_points s)(name \<mapsto> c)\<rparr>))"

definition normal_anchors :: "state \<Rightarrow> keypoint list" where
  "normal_anchors s =
     [(midnight_early s, [2500, 150]),
      (sunrise s - timedelta_minutes 60, [2500, 120]),
      (sunrise s - timedelta_minutes 30, [2700, 170]),
      (sunrise s, [3200, 155]),
      (sunrise s + timedelta_minutes 30, [4700, 255]),
      (sunset s - timedelta_minutes 90, [4200, 255]),
      (sunset s - timedelta_minutes 30, [3200, 255]),
      (sunset s, [3000, 255]),
      (ten_thirty s, [2700, 255]),
      (midnight_late s, [2500, 150])]"

definition debug_trip_points :: "int list list" where
  "debug_trip_points = [[2500, 120], [4000, 255]]"

definition vivid_trip_points :: "int list list" where
  "vivid_trip_points =
     [[255, 0, 0], [202, 0, 127], [130, 0, 255], [0, 0, 255], [0, 90, 190],
      [0, 200, 200], [0, 255, 0], [255, 255, 0], [255, 127, 0]]"

definition bright_trip_points :: "int list list" where
  "bright_trip_points =
     [[255, 100, 100], [202, 80, 127], [150, 70, 255], [90, 90, 255], [60, 100, 190],
      [70, 200, 200], [80, 255, 80], [255, 255, 0], [255, 127, 70]]"

definition calm_trip_points :: "int list list" where
  "calm_trip_points =
     [[255, 0, 0], [202, 0, 127], [130, 0, 255], [0, 0, 255], [0, 90, 190],
      [0, 200, 200], [0, 255, 0], [255, 127, 0]]"

definition one_trip_points :: "int list list" where
  "one_trip_points = [[0, 104, 255], [255, 0, 255]]"

definition two_trip_points :: "int list list" where
  "two_trip_points = [[255, 0, 255], [0, 104, 255]]"

text \<open>\<^verbatim>\<open>timestep / 8\<close> is 15 seconds exactly, so the integer division loses nothing.\<close>

definition defineTripPoints :: "state \<Rightarrow> outcome" where
  "defineTripPoints s =
     (let s0 = s\<lparr>trip_points := (trip_points s)(''Normal'' \<mapsto> [])\<rparr>;
          timestep = timedelta_minutes 2
      in and_then (and_then (and_then (and_then (and_then (and_then (and_then
           (if debug s0 = 2 then set_enumerated ''Normal'' (timestep div 8) debug_trip_points s0
            else Some (None, s0\<lparr>trip_points := (trip_points s0)(''Normal'' \<mapsto> normal_anchors s0)\<rparr>))
           (set_enumerated ''Vivid'' timestep vivid_trip_points))
           (set_enumerated ''Fun1'' (timestep div 8) vivid_trip_points))
           (set_enumerated ''Fun2'' (timestep div 8) (tl vivid_trip_points @ [hd vivid_trip_points])))
           (set_enumerated ''Bright'' timestep bright_trip_points))
           (set_enumerated ''Calm'' timestep calm_trip_points))
           (set_enumerated ''One'' timestep one_trip_points))
           (set_enumerated ''Two'' timestep two_trip_points))"

definition getNow :: "env \<Rightarrow> state \<Rightarrow> outcome" where
  "getNow e s =
     (let s1 = s\<lparr>now := clock_now e\<rparr>;
          rerun = (Some (clock_today e) \<noteq> today s1);
          s2 = s1\<lparr>today := Some (clock_today e)\<rparr>
      in if rerun then
           defineTripPoints
             (s2\<lparr>sunrise := replace_date (sun_rise e) (now s2),
                 sunset := replace_date (sun_set e) (now s2),
                 midnight_early := replace_time (now s2) 0 0 0,
                 ten_thirty := replace_time (now s2) 22 30 0,
                 midnight_late := replace_time (now s2) 23 59 59\<rparr>)
         else Some (None, s2))"

definition getColorModes :: "state \<Rightarrow> string set" where
  "getColorModes s = dom (trip_points s)"

subsection \<open>Interpolator\<close>

text \<open>The scan \<^verbatim>\<open>for next in range(0, len(tp)): if tp[next][0] >= self.now: break\<close>,
  entered at index \<open>i\<close>: it stops at the first trip point that is not before the
  time \<open>t\<close>, and a scan that finds none leaves the loop variable at the last
  index.\<close>

function find_next :: "keypoint list \<Rightarrow> datetime \<Rightarrow> nat \<Rightarrow> nat" where
  "find_next tp t i =
     (if fst (tp ! i) \<ge> t then i
      else if i + 1 < length tp then find_next tp t (i + 1)
      else i)"
  by pat_completeness auto
termination
  by (relation "measure (\<lambda>(tp, t, i). length tp - i)") auto

declare find_next.simps [simp del]

text \<open>The scan and \<^verbatim>\<open>prev = next - 1\<close>. Over an empty list the loop variable is
  never bound and the subtraction raises.\<close>

definition find_trip_points :: "keypoint list \<Rightarrow> datetime \<Rightarrow> error + (int \<times> nat)" where
  "find_trip_points tp t =
     (if tp = [] then Inl UnboundLocalError
      else let nxt = find_next tp t 0 in Inr (int nxt - 1, nxt))"

text \<open>\<^verbatim>\<open>(self.now - prev_time) / (next_time - prev_time)\<close>, a division of timedeltas.\<close>

definition time_ratio_of :: "datetime \<Rightarrow> datetime \<Rightarrow> datetime \<Rightarrow> error + rat" where
  "time_ratio_of t prev_time next_time =
     (if next_time - prev_time = 0 then Inl ZeroDivisionError
      else Inr (of_int (t - prev_time) / of_int (next_time - prev_time)))"

text \<open>The values of the Normal branch: \<open>(br, ct, br_next, ct_next)\<close> as they are
  passed to the service calls.\<close>

definition normal_values :: "int list \<Rightarrow> int list \<Rightarrow> int \<Rightarrow> int \<Rightarrow> rat
    \<Rightarrow> error + (rat \<times> rat \<times> rat \<times> rat)" where
  "normal_values prev_v next_v bri ovr time_ratio =
     bind_err (py_get prev_v 1) (\<lambda>prev_cap.
     bind_err (py_get prev_v 0) (\<lambda>prev_kelvin.
     bind_err (py_get next_v 1) (\<lambda>next_cap.
     bind_err (py_get next_v 0) (\<lambda>next_kelvin.
       let br_max_prev = of_int prev_cap / 255;
           br_prev = br_max_prev * of_int (bri + ovr);
           ct_max_prev = of_int prev_kelvin;
           ct_delta_prev = (ct_high - ct_max_prev) * (1 - br_max_prev) * ct_scalar;
           ct_prev = ct_max_prev - ct_delta_prev;
           br_max_next = of_int next_cap / 255;
           br_next = br_max_next * of_int (bri + ovr);
           ct_max_next = of_int next_kelvin;
           ct_delta_next = (ct_high - ct_max_next) * (1 - br_max_next) * ct_scalar;
           ct_next = ct_max_next - ct_delta_next;
           br = (br_next - br_prev) * time_ratio + br_prev;
           ct = (ct_next - ct_prev) * time_ratio + ct_prev;
           (br, ct) = (if br > 255 then (255, ct + (br - 255) * br_over_ct_mult) else (br, ct));
           br_next = (if br_next > 255 then 255 else br_next)
       in Inr (br, ct, br_next, ct_next)))))"

text \<open>The value \<^verbatim>\<open>now_rgb\<close> of the other branch.\<close>

definition rgb_values :: "int list \<Rightarrow> int list \<Rightarrow> rat \<Rightarrow> error + rat list" where
  "rgb_values prev_rgb next_rgb time_ratio =
     bind_err (py_get prev_rgb 0) (\<lambda>p0.
     bind_err (py_get next_rgb 0) (\<lambda>n0.
     bind_err (py_get prev_rgb 1) (\<lambda>p1.
     bind_err (py_get next_rgb 1) (\<lambda>n1.
     bind_err (py_get prev_rgb 2) (\<lambda>p2.
     bind_err (py_get next_rgb 2) (\<lambda>n2.
       let r_now = of_int p0 + of_int (n0 - p0) * time_ratio;
           g_now = of_int p1 + of_int (n1 - p1) * time_ratio;
           b_now = of_int p2 + of_int (n2 - p2) * time_ratio
       in Inr [r_now, g_now, b_now]))))))"

subsection \<open>Transition scheduler and \<^verbatim>\<open>turn_on\<close>\<close>

text \<open>\<^verbatim>\<open>ret = self._hass.loop.create_task(self.delay_run(...)); self._addSched(ret)\<close>\<close>

definition schedule :: "task \<Rightarrow> state \<Rightarrow> state" where
  "schedule t s = (let (ret, s1) = create_task t s in addSched ret s1)"

text \<open>The part of \<^verbatim>\<open>turn_on\<close> after the test for brightness 0; \<open>rnd\<close> is the value of
  \<^verbatim>\<open>random.randrange(1, 5)\<close>.\<close>

definition turn_on_curve :: "int \<Rightarrow> rat \<Rightarrow> state \<Rightarrow> error option \<times> state" where
  "turn_on_curve rnd this_transition s =
     (case trip_points s (mode s) of
        None \<Rightarrow> (Some KeyError, s)
      | Some tp \<Rightarrow>
         (case bind_err (find_trip_points tp (now s)) (\<lambda>(prv, nxt).
               bind_err (py_get tp prv) (\<lambda>(prev_time, prev_v).
               bind_err (py_get tp (int nxt)) (\<lambda>(next_time, next_v).
               bind_err (time_ratio_of (now s) prev_time next_time) (\<lambda>time_ratio.
                 Inr (prev_v, next_time, next_v, time_ratio))))) of
            Inl e \<Rightarrow> (Some e, s)
          | Inr (prev_v, next_time, next_v, time_ratio) \<Rightarrow>
             (let time_rem = td_seconds (next_time - now s) in
              if mode s = ''Normal'' then
                (case normal_values prev_v next_v (brightness s) (brightness_override s)
                        time_ratio of
                   Inl e \<Rightarrow> (Some e, s)
                 | Inr (br, ct, br_next, ct_next) \<Rightarrow>
                    (let s1 = async_call
                                (Light_turn_on (entity s) br (Kelvin ct) this_transition) s;
                         s2 = schedule
                                (Delay_call rnd
                                   (Light_turn_on (entity s1) br_next (Kelvin ct_next)
                                      (of_int time_rem))) s1;
                         s3 = schedule
                                (Delay_turn_on (td_seconds (next_time - now s2) + 1)
                                   \<lparr>kw_nocancel = Some True, kw_mode = None,
                                    kw_brightness = Some (brightness s2),
                                    kw_brightness_override = Some (brightness_override s2),
                                    kw_transition = None\<rparr>) s2
                     in (None, s3)))
              else
                (case rgb_values prev_v next_v time_ratio of
                   Inl e \<Rightarrow> (Some e, s)
                 | Inr now_rgb \<Rightarrow>
                    (let s1 = async_call
                                (Light_turn_on (entity s) (of_int (brightness s))
                                   (Rgb_color now_rgb) this_transition) s;
                         s2 = schedule
                                (Delay_call rnd
                                   (Light_turn_on (entity s1) (of_int (brightness s1))
                                      (Rgb_color (map of_int next_v)) (of_int time_rem))) s1;
                         s3 = schedule
                                (Delay_turn_on (td_seconds (next_time - now s2) + 1)
                                   \<lparr>kw_nocancel = Some True, kw_mode = Some (mode s2),
                                    kw_brightness = Some (brightness s2),
                                    kw_brightness_override = None,
                                    kw_transition = None\<rparr>) s2
                     in (None, s3))))))"

definition turn_on :: "env \<Rightarrow> kwargs \<Rightarrow> state \<Rightarrow> outcome" where
  "turn_on e kw s =
     (let nocancel = kwargs_get (kw_nocancel kw) False;
          s1 = (if \<not> nocancel then cancelSched s else s)
      in and_then (getNow e s1) (\<lambda>s2.
           let s3 = s2\<lparr>mode := kwargs_get (kw_mode kw) ''Normal'',
                       brightness := kwargs_get (kw_brightness kw) 255,
                       brightness_override := kwargs_get (kw_brightness_override kw) 0\<rparr>;
               this_transition = kwargs_get (kw_transition kw) (on_transition s3)
           in if brightness s3 = 0 then Some (None, disable_and_turn_off kw s3)
              else Some (turn_on_curve (randrange_1_5 e) this_transition s3)))"

text \<open>What a task does once the sleep of \<^verbatim>\<open>delay_run\<close> is over: \<^verbatim>\<open>await coro(*args, **kwargs)\<close>.\<close>

definition delay_run :: "env \<Rightarrow> task \<Rightarrow> state \<Rightarrow> outcome" where
  "delay_run e t s =
     (case t of
        Delay_call seconds c \<Rightarrow> Some (None, async_call c s)
      | Delay_turn_on seconds kw \<Rightarrow> turn_on e kw s)"

text \<open>Consecutive calls of \<^verbatim>\<open>turn_on\<close> on one object; an exception of one call is
  surfaced to its caller and the object lives on.\<close>

fun turn_on_calls :: "(env \<times> kwargs) list \<Rightarrow> state \<Rightarrow> state option" where
  "turn_on_calls [] s = Some s"
| "turn_on_calls ((e, kw) # rest) s =
     (case turn_on e kw s of
        None \<Rightarrow> None
      | Some (r, s') \<Rightarrow> turn_on_calls rest s')"

subsection \<open>Closed forms\<close>

text \<open>What the loops and the refresh compute, written without recursion; the
  lemmas of the next section prove each of them equal to the method it describes.\<close>

definition cyclic_curve :: "datetime \<Rightarrow> datetime \<Rightarrow> timedelta \<Rightarrow> int list list \<Rightarrow> keypoint list" where
  "cyclic_curve early late time_step tps =
     map (\<lambda>i. (early + int i * time_step, tps ! (i mod length tps)))
       [0..<nat \<lceil>of_int (late - early) / (of_int time_step :: real)\<rceil>]"

definition built_curves :: "state \<Rightarrow> string \<rightharpoonup> keypoint list" where
  "built_curves s =
     (let cyc = cyclic_curve (midnight_early s) (midnight_late s) in
      (trip_points s)
        (''Normal'' \<mapsto> (if debug s = 2 then cyc 15000000 debug_trip_points else normal_anchors s),
         ''Vivid'' \<mapsto> cyc 120000000 vivid_trip_points,
         ''Fun1'' \<mapsto> cyc 15000000 vivid_trip_points,
         ''Fun2'' \<mapsto> cyc 15000000 (tl vivid_trip_points @ [hd vivid_trip_points]),
         ''Bright'' \<mapsto> cyc 120000000 bright_trip_points,
         ''Calm'' \<mapsto> cyc 120000000 calm_trip_points,
         ''One'' \<mapsto> cyc 120000000 one_trip_points,
         ''Two'' \<mapsto> cyc 120000000 two_trip_points))"

definition refreshed :: "env \<Rightarrow> state \<Rightarrow> state" where
  "refreshed e s =
     (if Some (clock_today e) \<noteq> today s then
        (let s' = s\<lparr>now := clock_now e, today := Some (clock_today e),
                     sunrise := replace_date (sun_rise e) (clock_now e),
                     sunset := replace_date (sun_set e) (clock_now e),
                     midnight_early := replace_time (clock_now e) 0 0 0,
                     ten_thirty := replace_time (clock_now e) 22 30 0,
                     midnight_late := replace_time (clock_now e) 23 59 59\<rparr>
         in s'\<lparr>trip_points := built_curves s'\<rparr>)
      else s\<lparr>now := clock_now e, today := Some (clock_today e)\<rparr>)"

definition rearm_kwargs :: "state \<Rightarrow> kwargs" where
  "rearm_kwargs s =
     (if mode s = ''Normal'' then
        \<lparr>kw_nocancel = Some True, kw_mode = None, kw_brightness = Some (brightness s),
         kw_brightness_override = Some (brightness_override s), kw_transition = None\<rparr>
      else
        \<lparr>kw_nocancel = Some True, kw_mode = Some (mode s), kw_brightness = Some (brightness s),
         kw_brightness_override = None, kw_transition = None\<rparr>)"

definition armed :: "state \<Rightarrow> call \<Rightarrow> task \<Rightarrow> task \<Rightarrow> state" where
  "armed s c t1 t2 =
     s\<lparr>calls := calls s @ [c], tasks := tasks s @ [t1, t2],
       currSched := currSched s @ [length (tasks s), Suc (length (tasks s))]\<rparr>"


text \<open>\<^verbatim>\<open>__init__\<close>: the attributes, then the first refresh. Attributes that
  \<^verbatim>\<open>__init__\<close> leaves unset until their first assignment start at 0.\<close>

definition init :: "string \<Rightarrow> int \<Rightarrow> env \<Rightarrow> outcome" where
  "init ent dbg e =
     getNow e
       \<lparr>entity = ent, debug = dbg, mode = ''Off'', today = None,
        trip_points = Map.empty, brightness = 0, brightness_override = 0,
        on_transition = 2 / 10, off_transition = 2 / 10, currSched = [],
        now = 0, sunrise = 0, sunset = 0, midnight_early = 0, ten_thirty = 0,
        midnight_late = 0, calls = [], tasks = [], cancelled = []\<rparr>"

subsection \<open>Example inputs\<close>

text \<open>A small object whose day is 21 microseconds long, for running the curve
  builder by hand.\<close>

definition tiny_day :: state where
  "tiny_day =
     \<lparr>entity = ''light.desk'', debug = 0, mode = ''Off'', today = None,
      trip_points = Map.empty, brightness = 0, brightness_override = 0,
      on_transition = 2 / 10, off_transition = 2 / 10, currSched = [],
      now = 0, sunrise = 0, sunset = 0, midnight_early = 10, ten_thirty = 0,
      midnight_late = 31, calls = [], tasks = [], cancelled = []\<rparr>"

text \<open>The attributes as \<^verbatim>\<open>__init__\<close> sets them, before its refresh.\<close>

definition unrefreshed :: state where
  "unrefreshed =
     \<lparr>entity = ''light.living_room'', debug = 0, mode = ''Off'', today = None,
      trip_points = Map.empty, brightness = 0, brightness_override = 0,
      on_transition = 2 / 10, off_transition = 2 / 10, currSched = [],
      now = 0, sunrise = 0, sunset = 0, midnight_early = 0, ten_thirty = 0,
      midnight_late = 0, calls = [], tasks = [], cancelled = []\<rparr>"

text \<open>Day 0 with sunrise at 06:00 and sunset at 18:00, read at several times of the
  day.\<close>

definition at_time :: "datetime \<Rightarrow> env" where
  "at_time t =
     \<lparr>clock_now = t, clock_today = 0, sun_rise = 21600000000, sun_set = 64800000000,
      randrange_1_5 = 3\<rparr>"

text \<open>An object created at 00:00:00 of that day.\<close>

definition living_room :: state where
  "living_room = snd (the (init ''light.living_room'' 0 (at_time 0)))"

definition no_kwargs :: kwargs where
  "no_kwargs =
     \<lparr>kw_nocancel = None, kw_mode = None, kw_brightness = None,
      kw_brightness_override = None, kw_transition = None\<rparr>"

text \<open>The attributes of that day, and an object at noon with the curve of Normal as
  the builder makes it and the first three key points of the curve of One.\<close>

definition sunny_times :: state where
  "sunny_times =
     unrefreshed\<lparr>today := Some 0, now := 43200000000, sunrise := 21600000000,
       sunset := 64800000000, midnight_early := 0, ten_thirty := 81000000000,
       midnight_late := 86399000000\<rparr>"

definition sunny_day :: state where
  "sunny_day =
     sunny_times\<lparr>mode := ''Normal'', brightness := 255,
       trip_points :=
         [''Normal'' \<mapsto> normal_anchors sunny_times,
          ''One'' \<mapsto> [(0, [0, 104, 255]), (120000000, [255, 0, 255]),
                       (240000000, [0, 104, 255])]]\<rparr>"

text \<open>The object after a refresh on that day at the time \<open>t\<close>.\<close>

definition sunny_at :: "datetime \<Rightarrow> state" where
  "sunny_at t = sunny_times\<lparr>now := t, trip_points := built_curves (sunny_times\<lparr>now := t\<rparr>)\<rparr>"


text \<open>The object after \<^verbatim>\<open>turn_on()\<close> at noon.\<close>

definition after_noon_call :: state where
  "after_noon_call = snd (the (turn_on (at_time 43200000000) no_kwargs living_room))"

text \<open>The object after \<^verbatim>\<open>turn_on(mode="One", brightness_override=10)\<close> at 00:01:00.\<close>

definition one_kwargs :: kwargs where
  "one_kwargs = no_kwargs\<lparr>kw_mode := Some ''One'', kw_brightness_override := Some 10\<rparr>"

definition after_one_call :: state where
  "after_one_call = snd (the (turn_on (at_time 60000000) one_kwargs living_room))"

text \<open>The object after \<^verbatim>\<open>turn_on(mode="One")\<close> at 23:56:01, and the curve of One it
  holds.\<close>

definition plain_one_kwargs :: kwargs where
  "plain_one_kwargs = no_kwargs\<lparr>kw_mode := Some ''One''\<rparr>"

definition late_one_call :: state where
  "late_one_call = snd (the (turn_on (at_time 86161000000) plain_one_kwargs living_room))"

definition one_curve_of_day :: "keypoint list" where
  "one_curve_of_day = the (trip_points late_one_call ''One'')"

section \<open>Properties\<close>

subsection \<open>Cyclic palette generation\<close>

text \<open>The number of iterations the loop still has to make is the ceiling of the
  remaining span over the step.\<close>

lemma steps_left_zero:
  assumes "0 < step"
  shows "nat \<lceil>of_int (late - temp) / (of_int step :: real)\<rceil> = 0 \<longleftrightarrow> \<not> temp < late"
proof -
  have "\<lceil>of_int (late - temp) / (of_int step :: real)\<rceil> \<le> 0 \<longleftrightarrow> of_int (late - temp) / (of_int step :: real) \<le> 0"
    by (simp add: ceiling_le_iff)
  also have "\<dots> \<longleftrightarrow> late - temp \<le> 0"
    using assms by (simp add: divide_le_0_iff)
  finally show ?thesis by auto
qed

lemma steps_left_Suc:
  assumes "0 < step"
  shows "nat \<lceil>of_int (late - (temp + step)) / (of_int step :: real)\<rceil>
           = nat \<lceil>of_int (late - temp) / (of_int step :: real)\<rceil> - 1"
proof -
  have "of_int (late - (temp + step)) / (of_int step :: real) = of_int (late - temp) / of_int step - 1"
    using assms by (simp add: field_simps)
  then show ?thesis by (simp add: nat_diff_distrib')
qed

lemma enumerate_loop_closed:
  assumes "0 < step" and "ptr < length tps"
    and "n = nat \<lceil>of_int (late - temp) / (of_int step :: real)\<rceil>"
  shows "enumerate_loop late step tps temp ptr acc =
           Some (Inr (acc @ map (\<lambda>i. (temp + int i * step, tps ! ((ptr + i) mod length tps))) [0..<n]))"
  using assms
proof (induction n arbitrary: temp ptr acc)
  case 0
  then have "\<not> temp < late" using steps_left_zero [of step late temp] by simp
  then show ?case by (subst enumerate_loop.simps) simp
next
  case (Suc n)
  let ?k = "length tps"
  define ptr' where "ptr' = (if ptr + 1 \<ge> ?k then 0 else ptr + 1)"
  from Suc.prems have lt: "temp < late"
    using steps_left_zero [of step late temp] by (cases "temp < late") auto
  have n: "n = nat \<lceil>of_int (late - (temp + step)) / (of_int step :: real)\<rceil>"
    using Suc.prems steps_left_Suc [of step late temp] by simp
  have ptr': "ptr' < ?k" using Suc.prems by (auto simp: ptr'_def)
  have ptr_mod: "(ptr' + i) mod ?k = (ptr + Suc i) mod ?k" for i
  proof (cases "ptr + 1 \<ge> ?k")
    case True
    with Suc.prems have "ptr + 1 = ?k" by simp
    then have "ptr + Suc i = ?k + i" by linarith
    then have "(ptr + Suc i) mod ?k = i mod ?k" by (metis mod_add_self1)
    with True show ?thesis by (simp add: ptr'_def)
  next
    case False
    then show ?thesis by (simp add: ptr'_def)
  qed
  have "enumerate_loop late step tps temp ptr acc =
          enumerate_loop late step tps (temp + step) ptr' (acc @ [(temp, tps ! ptr)])"
    using lt Suc.prems by (subst enumerate_loop.simps) (simp add: ptr'_def)
  also have "\<dots> = Some (Inr ((acc @ [(temp, tps ! ptr)]) @
        map (\<lambda>i. (temp + step + int i * step, tps ! ((ptr' + i) mod ?k))) [0..<n]))"
    using Suc.IH [OF Suc.prems(1) ptr' n] .
  also have "map (\<lambda>i. (temp + step + int i * step, tps ! ((ptr' + i) mod ?k))) [0..<n]
      = map (\<lambda>i. (temp + int (Suc i) * step, tps ! ((ptr + Suc i) mod ?k))) [0..<n]"
    by (simp only: ptr_mod) (simp add: algebra_simps)
  also have "(acc @ [(temp, tps ! ptr)]) @
        map (\<lambda>i. (temp + int (Suc i) * step, tps ! ((ptr + Suc i) mod ?k))) [0..<n]
      = acc @ map (\<lambda>i. (temp + int i * step, tps ! ((ptr + i) mod ?k))) [0..<Suc n]"
    using Suc.prems(2) by (simp add: map_upt_Suc del: upt_Suc)
  finally show ?case .
qed


text \<open>
  Claim C10. For a non-empty palette and a positive step, \<^verbatim>\<open>enumerateTripPoints\<close>
  returns, and what it returns has \<open>ceil(D / s)\<close> key points, \<open>D\<close> being the span
  from \<^verbatim>\<open>midnight_early\<close> to \<^verbatim>\<open>midnight_late\<close>; the \<open>i\<close>-th key point has the
  timestamp \<open>midnight_early + i * s\<close> and the value \<open>palette[i mod k]\<close>.
\<close>

theorem enumerateTripPoints_cyclic:
  assumes "0 < time_step" and "tps \<noteq> []"
  shows "enumerateTripPoints s time_step tps =
           Some (Inr (map (\<lambda>i. (midnight_early s + int i * time_step, tps ! (i mod length tps)))
             [0..<nat \<lceil>of_int (midnight_late s - midnight_early s) / (of_int time_step :: real)\<rceil>]))"
  unfolding enumerateTripPoints_def
  using enumerate_loop_closed [OF assms(1), of 0 tps _ "midnight_late s" "midnight_early s" "[]"]
    assms(2)
  by simp

theorem enumerateTripPoints_cyclic_witness:
  "(0::int) < 5 \<and> [[1], [2], [3::int]] \<noteq> [] \<and>
   enumerateTripPoints tiny_day 5 [[1], [2], [3]] =
     Some (Inr [(10, [1]), (15, [2]), (20, [3]), (25, [1]), (30, [2])])"
  using enumerateTripPoints_cyclic [of 5 "[[1], [2], [3]]" tiny_day]
  by (simp add: tiny_day_def upt_rec)

subsection \<open>The methods in closed form\<close>

lemma cancelSched_closed:
  "cancelSched s = s\<lparr>currSched := [], cancelled := cancelled s @ currSched s\<rparr>"
proof (induction s rule: cancelSched.induct)
  case (1 s)
  show ?case
  proof (cases "currSched s")
    case Nil
    then show ?thesis by (subst cancelSched.simps) simp
  next
    case (Cons ret rest)
    then show ?thesis
      using "1" [OF Cons] by (subst cancelSched.simps) simp
  qed
qed

lemma set_enumerated_closed:
  assumes "0 < time_step" and "tps \<noteq> []"
  shows "set_enumerated name time_step tps s =
     Some (None, s\<lparr>trip_points := (trip_points s)
       (name \<mapsto> cyclic_curve (midnight_early s) (midnight_late s) time_step tps)\<rparr>)"
  using enumerate_loop_closed [OF assms(1), of 0 tps _ "midnight_late s" "midnight_early s" "[]"]
    assms(2)
  by (simp add: set_enumerated_def enumerateTripPoints_def cyclic_curve_def)

lemma normal_anchors_trip_points [simp]:
  "normal_anchors (s\<lparr>trip_points := m\<rparr>) = normal_anchors s"
  by (simp add: normal_anchors_def)

lemma palettes_nonempty:
  "debug_trip_points \<noteq> []" "vivid_trip_points \<noteq> []" "bright_trip_points \<noteq> []"
  "calm_trip_points \<noteq> []" "one_trip_points \<noteq> []" "two_trip_points \<noteq> []"
  "tl vivid_trip_points @ [hd vivid_trip_points] \<noteq> []"
  by (simp_all add: debug_trip_points_def vivid_trip_points_def bright_trip_points_def
      calm_trip_points_def one_trip_points_def two_trip_points_def)

lemma defineTripPoints_closed:
  "defineTripPoints s = Some (None, s\<lparr>trip_points := built_curves s\<rparr>)"
  by (simp add: defineTripPoints_def and_then_def set_enumerated_closed palettes_nonempty
      timedelta_minutes_def built_curves_def Let_def)

lemma getNow_refreshed: "getNow e s = Some (None, refreshed e s)"
  by (simp add: getNow_def refreshed_def defineTripPoints_closed Let_def)

lemma refreshed_frame [simp]:
  "currSched (refreshed e s) = currSched s"
  "calls (refreshed e s) = calls s"
  "tasks (refreshed e s) = tasks s"
  "cancelled (refreshed e s) = cancelled s"
  "entity (refreshed e s) = entity s"
  "on_transition (refreshed e s) = on_transition s"
  "off_transition (refreshed e s) = off_transition s"
  "now (refreshed e s) = clock_now e"
  by (simp_all add: refreshed_def Let_def)

lemma find_next_bounds:
  "i < length tp \<Longrightarrow> i \<le> find_next tp t i \<and> find_next tp t i < length tp"
proof (induction tp t i rule: find_next.induct)
  case (1 tp t i)
  show ?case
  proof (cases "t \<le> fst (tp ! i)")
    case True
    with "1.prems" show ?thesis by (subst (1 2) find_next.simps) simp
  next
    case False
    show ?thesis
    proof (cases "i + 1 < length tp")
      case True
      with False "1.IH" have "i + 1 \<le> find_next tp t (i + 1) \<and> find_next tp t (i + 1) < length tp"
        by simp
      with False True show ?thesis by (subst (1 2) find_next.simps) simp
    next
      case F2: False
      with False "1.prems" show ?thesis by (subst (1 2) find_next.simps) simp
    qed
  qed
qed

lemma find_next_before:
  "i \<le> j \<Longrightarrow> j < find_next tp t i \<Longrightarrow> fst (tp ! j) < t"
proof (induction tp t i rule: find_next.induct)
  case (1 tp t i)
  show ?case
  proof (cases "t \<le> fst (tp ! i)")
    case True
    then have "find_next tp t i = i" by (subst find_next.simps) simp
    with "1.prems" show ?thesis by simp
  next
    case False
    show ?thesis
    proof (cases "i + 1 < length tp")
      case True
      with False have eq: "find_next tp t i = find_next tp t (i + 1)"
        by (subst find_next.simps) simp
      show ?thesis
      proof (cases "j = i")
        case True
        with False show ?thesis by simp
      next
        case F3: False
        with "1.prems" eq have "i + 1 \<le> j" "j < find_next tp t (i + 1)" by simp_all
        with "1.IH" False True show ?thesis by simp
      qed
    next
      case F2: False
      with False have "find_next tp t i = i" by (subst find_next.simps) simp
      with "1.prems" show ?thesis by simp
    qed
  qed
qed

lemma find_next_found:
  "i \<le> j \<Longrightarrow> j < length tp \<Longrightarrow> t \<le> fst (tp ! j) \<Longrightarrow> t \<le> fst (tp ! find_next tp t i)"
proof (induction tp t i rule: find_next.induct)
  case (1 tp t i)
  show ?case
  proof (cases "t \<le> fst (tp ! i)")
    case True
    then have "find_next tp t i = i" by (subst find_next.simps) simp
    with True show ?thesis by simp
  next
    case False
    with "1.prems" have "j \<noteq> i" by auto
    with "1.prems" have ij: "i + 1 \<le> j" by simp
    with "1.prems" have lt: "i + 1 < length tp" by simp
    with False have eq: "find_next tp t i = find_next tp t (i + 1)"
      by (subst find_next.simps) simp
    from "1.IH" [OF False lt ij "1.prems"(2,3)] eq show ?thesis by simp
  qed
qed

lemma find_next_exhausted:
  "i < length tp \<Longrightarrow> \<forall>j. i \<le> j \<and> j < length tp \<longrightarrow> fst (tp ! j) < t
     \<Longrightarrow> find_next tp t i = length tp - 1"
proof (induction tp t i rule: find_next.induct)
  case (1 tp t i)
  from "1.prems" have nf: "\<not> t \<le> fst (tp ! i)" by auto
  show ?case
  proof (cases "i + 1 < length tp")
    case True
    with nf have eq: "find_next tp t i = find_next tp t (i + 1)"
      by (subst find_next.simps) simp
    from "1.IH" [OF nf True True] "1.prems"(2) eq show ?thesis by simp
  next
    case False
    with nf have "find_next tp t i = i" by (subst find_next.simps) simp
    with False "1.prems" show ?thesis by simp
  qed
qed

lemma turn_on_curve_error:
  "turn_on_curve rnd tr s = (Some e, s') \<Longrightarrow> s' = s"
  by (auto simp: turn_on_curve_def Let_def split: option.splits sum.splits prod.splits if_splits)

lemma turn_on_closed:
  "turn_on e kw s =
     Some (let s1 = (if kwargs_get (kw_nocancel kw) False then s else cancelSched s);
               s3 = (refreshed e s1)\<lparr>mode := kwargs_get (kw_mode kw) ''Normal'',
                      brightness := kwargs_get (kw_brightness kw) 255,
                      brightness_override := kwargs_get (kw_brightness_override kw) 0\<rparr>
           in if brightness s3 = 0 then (None, disable_and_turn_off kw s3)
              else turn_on_curve (randrange_1_5 e)
                     (kwargs_get (kw_transition kw) (on_transition s3)) s3)"
  by (simp add: turn_on_def getNow_refreshed and_then_def Let_def)

lemma turn_on_curve_Normal:
  assumes "mode s = ''Normal''" and "trip_points s ''Normal'' = Some tp"
    and "find_trip_points tp (now s) = Inr (prv, nxt)"
    and "py_get tp prv = Inr (prev_time, prev_v)"
    and "py_get tp (int nxt) = Inr (next_time, next_v)"
    and "next_time \<noteq> prev_time"
    and "normal_values prev_v next_v (brightness s) (brightness_override s)
           (of_int (now s - prev_time) / of_int (next_time - prev_time))
         = Inr (br, ct, br_next, ct_next)"
  shows "turn_on_curve rnd tr s =
     (None, armed s (Light_turn_on (entity s) br (Kelvin ct) tr)
        (Delay_call rnd (Light_turn_on (entity s) br_next (Kelvin ct_next)
           (of_int (td_seconds (next_time - now s)))))
        (Delay_turn_on (td_seconds (next_time - now s) + 1) (rearm_kwargs s)))"
  using assms
  by (simp add: turn_on_curve_def bind_err_def time_ratio_of_def Let_def schedule_def
      create_task_def addSched_def async_call_def armed_def rearm_kwargs_def)

lemma turn_on_curve_rgb:
  assumes "mode s \<noteq> ''Normal''" and "trip_points s (mode s) = Some tp"
    and "find_trip_points tp (now s) = Inr (prv, nxt)"
    and "py_get tp prv = Inr (prev_time, prev_v)"
    and "py_get tp (int nxt) = Inr (next_time, next_v)"
    and "next_time \<noteq> prev_time"
    and "rgb_values prev_v next_v (of_int (now s - prev_time) / of_int (next_time - prev_time))
         = Inr now_rgb"
  shows "turn_on_curve rnd tr s =
     (None, armed s (Light_turn_on (entity s) (of_int (brightness s)) (Rgb_color now_rgb) tr)
        (Delay_call rnd (Light_turn_on (entity s) (of_int (brightness s))
           (Rgb_color (map of_int next_v)) (of_int (td_seconds (next_time - now s)))))
        (Delay_turn_on (td_seconds (next_time - now s) + 1) (rearm_kwargs s)))"
  using assms
  by (simp add: turn_on_curve_def bind_err_def time_ratio_of_def Let_def schedule_def
      create_task_def addSched_def async_call_def armed_def rearm_kwargs_def)

lemma find_trip_points_Inr:
  assumes "find_trip_points tp t = Inr (prv, nxt)"
  shows "tp \<noteq> []" and "nxt = find_next tp t 0" and "prv = int nxt - 1"
    and "nxt < length tp" and "py_get tp (int nxt) = Inr (tp ! nxt)"
proof -
  from assms show ne: "tp \<noteq> []" and n: "nxt = find_next tp t 0" and "prv = int nxt - 1"
    by (auto simp: find_trip_points_def Let_def split: if_splits)
  from ne have "0 < length tp" by simp
  from find_next_bounds [OF this, of t] n show "nxt < length tp" by simp
  then show "py_get tp (int nxt) = Inr (tp ! nxt)" by (simp add: py_get_def)
qed

lemma turn_on_curve_success:
  assumes "turn_on_curve rnd tr s = (None, s')"
  shows "\<exists>tp nxt c1 c2. trip_points s (mode s) = Some tp
           \<and> find_trip_points tp (now s) = Inr (int nxt - 1, nxt)
           \<and> s' = armed s c1 (Delay_call rnd c2)
                    (Delay_turn_on (td_seconds (fst (tp ! nxt) - now s) + 1) (rearm_kwargs s))"
proof -
  from assms obtain tp where tp: "trip_points s (mode s) = Some tp"
    by (auto simp: turn_on_curve_def split: option.splits)
  from assms tp obtain prv nxt where f: "find_trip_points tp (now s) = Inr (prv, nxt)"
    by (cases "find_trip_points tp (now s)") (auto simp: turn_on_curve_def bind_err_def)
  note fi = find_trip_points_Inr [OF f]
  from assms tp f obtain prev_time prev_v where p: "py_get tp prv = Inr (prev_time, prev_v)"
    by (cases "py_get tp prv") (auto simp: turn_on_curve_def bind_err_def)
  obtain next_time next_v where nx: "tp ! nxt = (next_time, next_v)" by (cases "tp ! nxt")
  with fi(5) have n: "py_get tp (int nxt) = Inr (next_time, next_v)" by simp
  from f fi(3) have f': "find_trip_points tp (now s) = Inr (int nxt - 1, nxt)" by simp
  from nx have nt: "next_time = fst (tp ! nxt)" by simp
  from assms tp f p n have ne: "next_time \<noteq> prev_time"
    by (auto simp: turn_on_curve_def bind_err_def time_ratio_of_def)
  show ?thesis
  proof (cases "mode s = ''Normal''")
    case True
    with assms tp f p n ne obtain br ct br_next ct_next where
      "normal_values prev_v next_v (brightness s) (brightness_override s)
           (of_int (now s - prev_time) / of_int (next_time - prev_time))
         = Inr (br, ct, br_next, ct_next)"
      by (cases "normal_values prev_v next_v (brightness s) (brightness_override s)
           (of_int (now s - prev_time) / of_int (next_time - prev_time))")
        (auto simp: turn_on_curve_def bind_err_def time_ratio_of_def)
    from turn_on_curve_Normal [OF True _ f p n ne this, of rnd tr] tp True assms
    have "s' = armed s (Light_turn_on (entity s) br (Kelvin ct) tr)
        (Delay_call rnd (Light_turn_on (entity s) br_next (Kelvin ct_next)
           (of_int (td_seconds (next_time - now s)))))
        (Delay_turn_on (td_seconds (next_time - now s) + 1) (rearm_kwargs s))"
      by simp
    then show ?thesis using tp f' unfolding nt by blast
  next
    case False
    with assms tp f p n ne obtain now_rgb where
      "rgb_values prev_v next_v (of_int (now s - prev_time) / of_int (next_time - prev_time))
         = Inr now_rgb"
      by (cases "rgb_values prev_v next_v (of_int (now s - prev_time) / of_int (next_time - prev_time))")
        (auto simp: turn_on_curve_def bind_err_def time_ratio_of_def)
    from turn_on_curve_rgb [OF False tp f p n ne this, of rnd tr] assms
    have "s' = armed s (Light_turn_on (entity s) (of_int (brightness s)) (Rgb_color now_rgb) tr)
        (Delay_call rnd (Light_turn_on (entity s) (of_int (brightness s))
           (Rgb_color (map of_int next_v)) (of_int (td_seconds (next_time - now s)))))
        (Delay_turn_on (td_seconds (next_time - now s) + 1) (rearm_kwargs s))"
      by simp
    then show ?thesis using tp f' unfolding nt by blast
  qed
qed

lemma built_curves_Normal:
  "built_curves s ''Normal'' =
     Some (if debug s = 2 then cyclic_curve (midnight_early s) (midnight_late s) 15000000 debug_trip_points
           else normal_anchors s)"
  by (simp add: built_curves_def Let_def)

lemma built_curves_One:
  "built_curves s ''One'' = Some (cyclic_curve (midnight_early s) (midnight_late s) 120000000 one_trip_points)"
  by (simp add: built_curves_def Let_def)

lemma built_curves_other:
  "m \<notin> {''Normal'', ''Vivid'', ''Fun1'', ''Fun2'', ''Bright'', ''Calm'', ''One'', ''Two''}
     \<Longrightarrow> built_curves s m = trip_points s m"
  by (simp add: built_curves_def Let_def)

lemma refreshed_unrefreshed:
  "0 \<le> t \<Longrightarrow> t < day_us \<Longrightarrow> refreshed (at_time t) unrefreshed =
     sunny_times\<lparr>now := t, trip_points := built_curves (sunny_times\<lparr>now := t\<rparr>)\<rparr>"
  by (simp add: refreshed_def at_time_def unrefreshed_def sunny_times_def Let_def
      replace_date_def replace_time_def day_us_def)

lemma py_get_errors: "py_get xs i = Inl e \<Longrightarrow> e = IndexError"
  by (auto simp: py_get_def split: if_splits)

lemma normal_values_errors: "normal_values pv nv b ov r = Inl e \<Longrightarrow> e = IndexError"
  by (auto simp: normal_values_def bind_err_def Let_def dest: py_get_errors
      split: sum.splits prod.splits if_splits)

lemma rgb_values_errors: "rgb_values pv nv r = Inl e \<Longrightarrow> e = IndexError"
  by (auto simp: rgb_values_def bind_err_def Let_def dest: py_get_errors split: sum.splits)

lemma find_trip_points_nonempty:
  "tp \<noteq> [] \<Longrightarrow> find_trip_points tp t = Inr (int (find_next tp t 0) - 1, find_next tp t 0)"
  by (simp add: find_trip_points_def Let_def)

lemma py_get_prev:
  assumes "n < length tp"
  shows "\<exists>kp. py_get tp (int n - 1) = Inr kp"
  using assms by (auto simp: py_get_def)

lemma turn_on_curve_errors:
  assumes "trip_points s (mode s) = Some tp" and "tp \<noteq> []"
    and "turn_on_curve rnd tr s = (Some e, s')"
  shows "e = ZeroDivisionError \<or> e = IndexError"
proof -
  let ?n = "find_next tp (now s) 0"
  from assms(2) have f: "find_trip_points tp (now s) = Inr (int ?n - 1, ?n)"
    by (rule find_trip_points_nonempty)
  note fi = find_trip_points_Inr [OF f]
  from py_get_prev [OF fi(4)] obtain pt pv where p: "py_get tp (int ?n - 1) = Inr (pt, pv)"
    by (cases "py_get tp (int ?n - 1)") auto
  obtain nt nv where n: "py_get tp (int ?n) = Inr (nt, nv)"
    using fi(5) by (cases "tp ! ?n") auto
  show ?thesis
  proof (cases "nt = pt")
    case True
    with assms f p n show ?thesis
      by (simp add: turn_on_curve_def bind_err_def time_ratio_of_def)
  next
    case False
    with assms f p n show ?thesis
      by (auto simp: turn_on_curve_def bind_err_def time_ratio_of_def Let_def
          dest: normal_values_errors rgb_values_errors split: sum.splits prod.splits if_splits)
  qed
qed

subsection \<open>The bracketing scan\<close>

text \<open>
  Claim C1, as amended. For a non-empty curve and a time \<open>t\<close> that is after the first
  key point and not after all key points, the scan of \<^verbatim>\<open>turn_on\<close> yields
  \<open>prev = next - 1\<close> with \<open>next > 0\<close>, where \<open>next\<close> is the first index from 0 whose
  timestamp is not before \<open>t\<close>, and the bracket is
  \<open>curve[prev].timestamp < t \<le> curve[next].timestamp\<close>: strict on the left, not on the
  right. A time that is the timestamp of a key point selects that key point as \<open>next\<close>.
\<close>

theorem find_trip_points_bracket:
  assumes "tp \<noteq> []" and "fst (tp ! 0) < t" and "\<exists>kp\<in>set tp. t \<le> fst kp"
  shows "\<exists>nxt. find_trip_points tp t = Inr (int nxt - 1, nxt) \<and> 0 < nxt \<and> nxt < length tp
           \<and> (\<forall>j<nxt. fst (tp ! j) < t) \<and> t \<le> fst (tp ! nxt)
           \<and> py_get tp (int nxt - 1) = Inr (tp ! (nxt - 1)) \<and> fst (tp ! (nxt - 1)) < t"
proof -
  let ?n = "find_next tp t 0"
  from assms(1) have len: "0 < length tp" by simp
  have f: "find_trip_points tp t = Inr (int ?n - 1, ?n)"
    using assms(1) by (rule find_trip_points_nonempty)
  have b: "?n < length tp" using find_next_bounds [OF len, of t] by simp
  have bef: "\<forall>j<?n. fst (tp ! j) < t" using find_next_before [of 0 _ tp t] by simp
  from assms(3) obtain j where "j < length tp" and "t \<le> fst (tp ! j)"
    by (auto simp: in_set_conv_nth)
  then have ge: "t \<le> fst (tp ! ?n)" using find_next_found [of 0 j tp t] by simp
  have pos: "0 < ?n"
  proof (rule ccontr)
    assume "\<not> 0 < ?n"
    then have "?n = 0" by simp
    with ge assms(2) show False by simp
  qed
  then have idx: "int ?n - 1 = int (?n - 1)" by simp
  have pg: "py_get tp (int ?n - 1) = Inr (tp ! (?n - 1))"
    unfolding idx using b by (simp add: py_get_def)
  from pos bef have "fst (tp ! (?n - 1)) < t" by simp
  with f pos b bef ge pg show ?thesis by blast
qed

theorem find_trip_points_bracket_witness:
  "normal_anchors sunny_times \<noteq> [] \<and> fst (normal_anchors sunny_times ! 0) < 43200000000
   \<and> (\<exists>kp\<in>set (normal_anchors sunny_times). 43200000000 \<le> fst kp)
   \<and> (\<exists>nxt. find_trip_points (normal_anchors sunny_times) 43200000000 = Inr (int nxt - 1, nxt)
         \<and> 0 < nxt \<and> fst (normal_anchors sunny_times ! (nxt - 1)) < 43200000000
         \<and> 43200000000 \<le> fst (normal_anchors sunny_times ! nxt))
   \<and> find_trip_points (normal_anchors sunny_times) 43200000000 = Inr (4, 5)"
proof -
  have h1: "normal_anchors sunny_times \<noteq> []" by (simp add: normal_anchors_def)
  have h2: "fst (normal_anchors sunny_times ! 0) < 43200000000"
    by (simp add: normal_anchors_def sunny_times_def unrefreshed_def)
  have h3: "\<exists>kp\<in>set (normal_anchors sunny_times). 43200000000 \<le> fst kp"
    by (simp add: normal_anchors_def sunny_times_def unrefreshed_def)
  have ev: "find_trip_points (normal_anchors sunny_times) 43200000000 = Inr (4, 5)"
    by (simp add: find_trip_points_def find_next.simps normal_anchors_def sunny_times_def
        unrefreshed_def timedelta_minutes_def)
  from find_trip_points_bracket [OF h1 h2 h3] h1 h2 h3 ev show ?thesis by blast
qed

theorem bracket_at_key_point_counterexample:
  "find_trip_points (normal_anchors sunny_times) 21600000000 = Inr (2, 3)
   \<and> fst (normal_anchors sunny_times ! 3) = 21600000000
   \<and> \<not> (21600000000 < fst (normal_anchors sunny_times ! 3))"
  by (simp add: find_trip_points_def find_next.simps normal_anchors_def sunny_times_def
      unrefreshed_def timedelta_minutes_def)

text \<open>
  What the scan does when no key point of a non-empty curve has a timestamp at or after
  \<^verbatim>\<open>now\<close>: the loop variable stays at the last index, so \<open>next = length - 1\<close> and
  \<open>prev = length - 2\<close>, and nothing is raised for it. An exception of \<^verbatim>\<open>turn_on\<close> is
  then a \<^verbatim>\<open>ZeroDivisionError\<close> or an \<^verbatim>\<open>IndexError\<close>, raised before any command or task.
\<close>

lemma scan_exhausted_last_index:
  assumes "trip_points s (mode s) = Some tp" and "tp \<noteq> []"
    and "\<forall>kp\<in>set tp. fst kp < now s"
  shows "find_trip_points tp (now s) = Inr (int (length tp) - 2, length tp - 1)
     \<and> (case turn_on_curve rnd tr s of
          (Some e, s') \<Rightarrow> (e = ZeroDivisionError \<or> e = IndexError) \<and> s' = s
        | (None, s') \<Rightarrow> \<exists>c. calls s' = calls s @ [c])"
proof -
  from assms(2) have len: "0 < length tp" by simp
  from assms(3) have "\<forall>j. 0 \<le> j \<and> j < length tp \<longrightarrow> fst (tp ! j) < now s" by simp
  from find_next_exhausted [OF len this] have n: "find_next tp (now s) 0 = length tp - 1" .
  from len have "int (length tp - 1) - 1 = int (length tp) - 2" by linarith
  with n assms(2) have f: "find_trip_points tp (now s) = Inr (int (length tp) - 2, length tp - 1)"
    by (simp only: find_trip_points_def Let_def if_False)
  obtain r s' where res: "turn_on_curve rnd tr s = (r, s')" by (cases "turn_on_curve rnd tr s")
  have "case (r, s') of
          (Some e, s') \<Rightarrow> (e = ZeroDivisionError \<or> e = IndexError) \<and> s' = s
        | (None, s') \<Rightarrow> \<exists>c. calls s' = calls s @ [c]"
  proof (cases r)
    case None
    with res turn_on_curve_success [of rnd tr s s'] show ?thesis
      by (auto simp: armed_def)
  next
    case (Some e)
    with res turn_on_curve_error [of rnd tr s e s'] turn_on_curve_errors [OF assms(1,2), of rnd tr e s']
    show ?thesis by simp
  qed
  with f res show ?thesis by simp
qed

text \<open>The example object, run by hand.\<close>

lemma normal_anchors_now [simp]: "normal_anchors (s\<lparr>now := t\<rparr>) = normal_anchors s"
  by (simp add: normal_anchors_def)

lemma built_curves_now: "built_curves (s\<lparr>now := t\<rparr>) = built_curves s"
  by (simp add: built_curves_def Let_def)

lemma living_room_eq: "living_room = sunny_at 0"
proof -
  have "init ''light.living_room'' 0 (at_time 0) = getNow (at_time 0) unrefreshed"
    by (simp add: init_def unrefreshed_def)
  then show ?thesis
    by (simp add: living_room_def getNow_refreshed refreshed_unrefreshed day_us_def sunny_at_def)
qed

lemma cancelSched_living_room: "cancelSched living_room = living_room"
  unfolding living_room_eq
  by (simp add: cancelSched_closed sunny_at_def sunny_times_def unrefreshed_def)

lemma refreshed_living_room: "refreshed (at_time t) living_room = sunny_at t"
  unfolding living_room_eq sunny_at_def built_curves_now
  by (simp add: refreshed_def at_time_def sunny_times_def unrefreshed_def)

lemma turn_on_living_room:
  assumes "0 \<le> t" and "t < day_us" and "kwargs_get (kw_brightness kw) 255 \<noteq> 0"
    and "kwargs_get (kw_nocancel kw) False = False"
  shows "turn_on (at_time t) kw living_room =
     Some (turn_on_curve 3 (kwargs_get (kw_transition kw) (1 / 5))
       ((sunny_at t)\<lparr>mode := kwargs_get (kw_mode kw) ''Normal'',
          brightness := kwargs_get (kw_brightness kw) 255,
          brightness_override := kwargs_get (kw_brightness_override kw) 0\<rparr>))"
  using assms
  by (simp add: turn_on_closed cancelSched_living_room refreshed_living_room Let_def)
     (simp add: at_time_def living_room_eq sunny_at_def sunny_times_def unrefreshed_def)

lemma sunny_at_fields [simp]:
  "now (sunny_at t) = t" "entity (sunny_at t) = ''light.living_room''"
  "calls (sunny_at t) = []" "tasks (sunny_at t) = []" "currSched (sunny_at t) = []"
  "cancelled (sunny_at t) = []" "today (sunny_at t) = Some 0"
  "trip_points (sunny_at t) ''Normal'' = Some (normal_anchors sunny_times)"
  "trip_points (sunny_at t) ''One'' = Some (cyclic_curve 0 86399000000 120000000 one_trip_points)"
  "trip_points (sunny_at t) ''Foo'' = None"
  by (simp_all add: sunny_at_def built_curves_Normal built_curves_One built_curves_other)
     (simp_all add: sunny_times_def unrefreshed_def)

lemma noon_call:
  "turn_on (at_time 43200000000) no_kwargs living_room =
     Some (None, armed ((sunny_at 43200000000)\<lparr>mode := ''Normal'', brightness := 255,
                          brightness_override := 0\<rparr>)
       (Light_turn_on ''light.living_room'' 255 (Kelvin 4425) (1 / 5))
       (Delay_call 3 (Light_turn_on ''light.living_room'' 255 (Kelvin 4200) 16200))
       (Delay_turn_on 16201
          \<lparr>kw_nocancel = Some True, kw_mode = None, kw_brightness = Some 255,
           kw_brightness_override = Some 0, kw_transition = None\<rparr>))"
proof -
  let ?s = "(sunny_at 43200000000)\<lparr>mode := ''Normal'', brightness := 255, brightness_override := 0\<rparr>"
  have f: "find_trip_points (normal_anchors sunny_times) (now ?s) = Inr (4, 5)"
    by (simp add: find_trip_points_def find_next.simps normal_anchors_def sunny_times_def
        unrefreshed_def timedelta_minutes_def)
  have p: "py_get (normal_anchors sunny_times) 4 = Inr (23400000000, [4700, 255])"
    by (simp add: py_get_def normal_anchors_def sunny_times_def unrefreshed_def
        timedelta_minutes_def)
  have n: "py_get (normal_anchors sunny_times) (int 5) = Inr (59400000000, [4200, 255])"
    by (simp add: py_get_def normal_anchors_def sunny_times_def unrefreshed_def
        timedelta_minutes_def)
  have v: "normal_values [4700, 255] [4200, 255] (brightness ?s) (brightness_override ?s)
      (of_int (now ?s - 23400000000) / of_int (59400000000 - 23400000000))
     = Inr (255, 4425, 255, 4200)"
    by (simp add: normal_values_def bind_err_def py_get_def Let_def ct_high_def ct_scalar_def
        br_over_ct_mult_def)
  have "turn_on_curve 3 (1 / 5) ?s = (None, armed ?s
       (Light_turn_on ''light.living_room'' 255 (Kelvin 4425) (1 / 5))
       (Delay_call 3 (Light_turn_on ''light.living_room'' 255 (Kelvin 4200) 16200))
       (Delay_turn_on 16201
          \<lparr>kw_nocancel = Some True, kw_mode = None, kw_brightness = Some 255,
           kw_brightness_override = Some 0, kw_transition = None\<rparr>))"
    using turn_on_curve_Normal [of ?s, OF _ _ f p n _ v, of 3 "1 / 5"]
    by (simp add: td_seconds_def rearm_kwargs_def)
  then show ?thesis
    by (simp add: turn_on_living_room day_us_def no_kwargs_def kwargs_get_def)
qed

lemma after_noon_call_fields:
  "currSched after_noon_call = [0, 1]"
  "calls after_noon_call = [Light_turn_on ''light.living_room'' 255 (Kelvin 4425) (1 / 5)]"
  "tasks after_noon_call =
     [Delay_call 3 (Light_turn_on ''light.living_room'' 255 (Kelvin 4200) 16200),
      Delay_turn_on 16201
        \<lparr>kw_nocancel = Some True, kw_mode = None, kw_brightness = Some 255,
         kw_brightness_override = Some 0, kw_transition = None\<rparr>]"
  "cancelled after_noon_call = []"
  "today after_noon_call = Some 0"
  "trip_points after_noon_call ''Foo'' = None"
  by (simp_all add: after_noon_call_def noon_call armed_def)

subsection \<open>Unknown mode\<close>

text \<open>
  Claim C3, as amended. With a brightness other than 0, the refresh of \<^verbatim>\<open>turn_on\<close>
  returns, and when the requested mode is absent from the curve set it leaves,
  \<^verbatim>\<open>turn_on\<close> raises \<^verbatim>\<open>KeyError\<close>, issues no device command and creates no task. The
  pending-schedule collection is then empty, with every handle it held cancelled, when
  \<^verbatim>\<open>nocancel\<close> is false; it is unchanged when \<^verbatim>\<open>nocancel\<close> is true.
\<close>

theorem turn_on_unknown_mode:
  assumes "kwargs_get (kw_brightness kw) 255 \<noteq> 0"
  shows "\<exists>s2. getNow e (if kwargs_get (kw_nocancel kw) False then s else cancelSched s)
                = Some (None, s2)
     \<and> (trip_points s2 (kwargs_get (kw_mode kw) ''Normal'') = None \<longrightarrow>
        (\<exists>s'. turn_on e kw s = Some (Some KeyError, s') \<and> calls s' = calls s
           \<and> tasks s' = tasks s
           \<and> currSched s' = (if kwargs_get (kw_nocancel kw) False then currSched s else [])
           \<and> cancelled s' = (if kwargs_get (kw_nocancel kw) False then cancelled s
                             else cancelled s @ currSched s)))"
proof -
  let ?s1 = "if kwargs_get (kw_nocancel kw) False then s else cancelSched s"
  let ?s2 = "refreshed e ?s1"
  let ?s3 = "?s2\<lparr>mode := kwargs_get (kw_mode kw) ''Normal'',
                brightness := kwargs_get (kw_brightness kw) 255,
                brightness_override := kwargs_get (kw_brightness_override kw) 0\<rparr>"
  have g: "getNow e ?s1 = Some (None, ?s2)" by (rule getNow_refreshed)
  have fr: "calls ?s3 = calls s" "tasks ?s3 = tasks s"
    "currSched ?s3 = (if kwargs_get (kw_nocancel kw) False then currSched s else [])"
    "cancelled ?s3 = (if kwargs_get (kw_nocancel kw) False then cancelled s
                           else cancelled s @ currSched s)"
    by (simp_all add: cancelSched_closed)
  show ?thesis
  proof (rule exI [of _ ?s2], intro conjI impI)
    show "getNow e ?s1 = Some (None, ?s2)" by (rule g)
  next
    assume "trip_points ?s2 (kwargs_get (kw_mode kw) ''Normal'') = None"
    with assms have "turn_on e kw s = Some (Some KeyError, ?s3)"
      by (simp add: turn_on_closed Let_def turn_on_curve_def)
    with fr show "\<exists>s'. turn_on e kw s = Some (Some KeyError, s') \<and> calls s' = calls s
           \<and> tasks s' = tasks s
           \<and> currSched s' = (if kwargs_get (kw_nocancel kw) False then currSched s else [])
           \<and> cancelled s' = (if kwargs_get (kw_nocancel kw) False then cancelled s
                             else cancelled s @ currSched s)"
      by (intro exI [of _ ?s3]) (simp only: simp_thms)
  qed
qed

theorem turn_on_unknown_mode_witness:
  "kwargs_get (kw_brightness (no_kwargs\<lparr>kw_mode := Some ''Foo''\<rparr>)) 255 \<noteq> 0
   \<and> (\<exists>s'. turn_on (at_time 43260000000) (no_kwargs\<lparr>kw_mode := Some ''Foo''\<rparr>) after_noon_call
             = Some (Some KeyError, s')
          \<and> calls s' = calls after_noon_call \<and> tasks s' = tasks after_noon_call
          \<and> currSched s' = [] \<and> cancelled s' = [0, 1])"
proof -
  let ?kw = "no_kwargs\<lparr>kw_mode := Some ''Foo''\<rparr>"
  let ?e = "at_time 43260000000"
  have h: "kwargs_get (kw_brightness ?kw) 255 \<noteq> 0"
    by (simp add: no_kwargs_def kwargs_get_def)
  have nc: "kwargs_get (kw_nocancel ?kw) False = False"
    by (simp add: no_kwargs_def kwargs_get_def)
  have m: "kwargs_get (kw_mode ?kw) ''Normal'' = ''Foo''"
    by (simp add: no_kwargs_def kwargs_get_def)
  from turn_on_unknown_mode [OF h, of ?e after_noon_call] obtain s2 where
    g: "getNow ?e (cancelSched after_noon_call) = Some (None, s2)" and
    imp: "trip_points s2 ''Foo'' = None \<longrightarrow>
        (\<exists>s'. turn_on ?e ?kw after_noon_call = Some (Some KeyError, s')
           \<and> calls s' = calls after_noon_call \<and> tasks s' = tasks after_noon_call
           \<and> currSched s' = [] \<and> cancelled s' = cancelled after_noon_call @ currSched after_noon_call)"
    unfolding nc m by auto
  from g have "s2 = refreshed ?e (cancelSched after_noon_call)"
    by (simp add: getNow_refreshed)
  then have "trip_points s2 ''Foo'' = None"
    by (simp add: refreshed_def cancelSched_closed after_noon_call_fields at_time_def)
  with imp h show ?thesis by (simp add: after_noon_call_fields)
qed

theorem unknown_mode_clears_schedule_counterexample:
  "currSched after_noon_call = [0, 1]
   \<and> map_option fst (turn_on (at_time 43260000000) (no_kwargs\<lparr>kw_mode := Some ''Foo''\<rparr>)
        after_noon_call) = Some (Some KeyError)
   \<and> currSched (snd (the (turn_on (at_time 43260000000) (no_kwargs\<lparr>kw_mode := Some ''Foo''\<rparr>)
        after_noon_call))) = []
   \<and> cancelled (snd (the (turn_on (at_time 43260000000) (no_kwargs\<lparr>kw_mode := Some ''Foo''\<rparr>)
        after_noon_call))) = [0, 1]"
  by (simp add: turn_on_closed Let_def turn_on_curve_def cancelSched_closed refreshed_def
      after_noon_call_fields at_time_def no_kwargs_def kwargs_get_def)

lemma normal_values_pairs:
  "normal_values [pk, pb] [nk, nb] bri ovr r =
     (let br_prev = of_int pb / 255 * of_int (bri + ovr);
          br_next = of_int nb / 255 * of_int (bri + ovr);
          ct_prev = of_int pk - (5000 - of_int pk) * (1 - of_int pb / 255) * (35 / 100);
          ct_next = of_int nk - (5000 - of_int nk) * (1 - of_int nb / 255) * (35 / 100);
          br = (br_next - br_prev) * r + br_prev;
          ct = (ct_next - ct_prev) * r + ct_prev
      in Inr (if br > 255 then 255 else br,
              if br > 255 then ct + (br - 255) * 6 else ct,
              if br_next > 255 then 255 else br_next,
              ct_next))"
  by (simp add: normal_values_def bind_err_def py_get_def Let_def ct_high_def ct_scalar_def
      br_over_ct_mult_def)

lemma find_trip_points_at_start:
  assumes "tp \<noteq> []" and "t \<le> fst (tp ! 0)"
  shows "find_trip_points tp t = Inr (- 1, 0)" and "py_get tp (- 1) = Inr (last tp)"
proof -
  from assms(2) have "find_next tp t 0 = 0" by (subst find_next.simps) simp
  with assms(1) show "find_trip_points tp t = Inr (- 1, 0)"
    by (simp add: find_trip_points_def)
  from assms(1) obtain x xs where tp: "tp = x # xs" by (cases tp) auto
  have "(x # xs) ! length xs = last (x # xs)" by (simp add: last_conv_nth)
  then show "py_get tp (- 1) = Inr (last tp)"
    unfolding tp by (simp add: py_get_def)
qed

subsection \<open>Normal mode\<close>

text \<open>
  Claim C4. In Normal mode the colour temperature derived at a bracketing key point
  \<open>(kelvin, cap)\<close> is \<open>kelvin - (5000 - kelvin) * (1 - cap / 255) * 0.35\<close>: the kelvin of
  the command towards the next key point is that value at the next key point, and the
  kelvin of the immediate command is the interpolation between the two derived values
  whenever the interpolated brightness does not exceed 255. On the Normal curve as the
  builder makes it, whose first key points are \<open>(2500, 150)\<close> at midnight and
  \<open>(2500, 120)\<close> at sunrise - 60 min, with brightness 255, override 0 and \<^verbatim>\<open>now\<close> at
  midnight, the immediate command has brightness 150 and the kelvin of the formula at
  \<open>(2500, 150)\<close>.
\<close>

theorem normal_colour_temperature:
  assumes "ct_prev = of_int pk - (5000 - of_int pk) * (1 - of_int pb / 255) * (35 / 100)"
    and "ct_next = of_int nk - (5000 - of_int nk) * (1 - of_int nb / 255) * (35 / 100)"
    and "br_prev = of_int pb / 255 * of_int (bri + ovr)"
    and "br_next = of_int nb / 255 * of_int (bri + ovr)"
  shows "(\<exists>br ct br_n. normal_values [pk, pb] [nk, nb] bri ovr r = Inr (br, ct, br_n, ct_next)
            \<and> ((br_next - br_prev) * r + br_prev \<le> 255 \<longrightarrow>
                 ct = (ct_next - ct_prev) * r + ct_prev))
     \<and> (mode s = ''Normal'' \<and> trip_points s ''Normal'' = Some (normal_anchors s)
          \<and> now s = midnight_early s \<and> midnight_late s \<noteq> midnight_early s
          \<and> brightness s = 255 \<and> brightness_override s = 0 \<longrightarrow>
        (\<exists>s'. turn_on_curve rnd tr s = (None, s')
           \<and> calls s' = calls s @
                [Light_turn_on (entity s) 150
                   (Kelvin (2500 - (5000 - 2500) * (1 - 150 / 255) * (35 / 100))) tr]))"
proof (intro conjI impI)
  show "\<exists>br ct br_n. normal_values [pk, pb] [nk, nb] bri ovr r = Inr (br, ct, br_n, ct_next)
            \<and> ((br_next - br_prev) * r + br_prev \<le> 255 \<longrightarrow>
                 ct = (ct_next - ct_prev) * r + ct_prev)"
    unfolding assms by (simp add: normal_values_pairs Let_def)
next
  assume a: "mode s = ''Normal'' \<and> trip_points s ''Normal'' = Some (normal_anchors s)
          \<and> now s = midnight_early s \<and> midnight_late s \<noteq> midnight_early s
          \<and> brightness s = 255 \<and> brightness_override s = 0"
  let ?tp = "normal_anchors s"
  have ne: "?tp \<noteq> []" by (simp add: normal_anchors_def)
  have first: "now s \<le> fst (?tp ! 0)" using a by (simp add: normal_anchors_def)
  note st = find_trip_points_at_start [OF ne first]
  have p: "py_get ?tp (- 1) = Inr (midnight_late s, [2500, 150])"
    using st(2) by (simp add: normal_anchors_def)
  have n: "py_get ?tp (int 0) = Inr (midnight_early s, [2500, 150])"
    by (simp add: py_get_def normal_anchors_def)
  have ne2: "midnight_early s \<noteq> midnight_late s" using a by auto
  then have ratio: "(of_int (now s - midnight_late s) / of_int (midnight_early s - midnight_late s) :: rat) = 1"
    using a by simp
  have v: "normal_values [2500, 150] [2500, 150] (brightness s) (brightness_override s)
             (of_int (now s - midnight_late s) / of_int (midnight_early s - midnight_late s))
           = Inr (150, 2500 - (5000 - 2500) * (1 - 150 / 255) * (35 / 100), 150,
                  2500 - (5000 - 2500) * (1 - 150 / 255) * (35 / 100))"
    unfolding ratio using a by (simp add: normal_values_pairs Let_def)
  from a have m: "mode s = ''Normal''" and t: "trip_points s ''Normal'' = Some ?tp" by simp_all
  from turn_on_curve_Normal [OF m t st(1) p n ne2 v, of rnd tr]
  show "\<exists>s'. turn_on_curve rnd tr s = (None, s')
           \<and> calls s' = calls s @
                [Light_turn_on (entity s) 150
                   (Kelvin (2500 - (5000 - 2500) * (1 - 150 / 255) * (35 / 100))) tr]"
    by (simp add: armed_def)
qed

theorem normal_colour_temperature_witness:
  "normal_values [2500, 150] [2500, 120] 255 0 0 = Inr (150, 36375 / 17, 120, 34625 / 17)
   \<and> (34625 / 17 :: rat) = 2500 - (5000 - 2500) * (1 - 120 / 255) * (35 / 100)
   \<and> (36375 / 17 :: rat) = 2500 - (5000 - 2500) * (1 - 150 / 255) * (35 / 100)
   \<and> mode (sunny_day\<lparr>now := 0\<rparr>) = ''Normal''
   \<and> trip_points (sunny_day\<lparr>now := 0\<rparr>) ''Normal'' = Some (normal_anchors (sunny_day\<lparr>now := 0\<rparr>))
   \<and> now (sunny_day\<lparr>now := 0\<rparr>) = midnight_early (sunny_day\<lparr>now := 0\<rparr>)
   \<and> brightness (sunny_day\<lparr>now := 0\<rparr>) = 255
   \<and> calls (snd (turn_on_curve 3 (1 / 5) (sunny_day\<lparr>now := 0\<rparr>)))
        = [Light_turn_on ''light.living_room'' 150 (Kelvin (36375 / 17)) (1 / 5)]"
proof -
  let ?s = "sunny_day\<lparr>now := 0\<rparr>"
  have h: "mode ?s = ''Normal'' \<and> trip_points ?s ''Normal'' = Some (normal_anchors ?s)
          \<and> now ?s = midnight_early ?s \<and> midnight_late ?s \<noteq> midnight_early ?s
          \<and> brightness ?s = 255 \<and> brightness_override ?s = 0"
    by (simp add: sunny_day_def sunny_times_def unrefreshed_def normal_anchors_def)
  from normal_colour_temperature [OF refl refl refl refl, of 2500 150 2500 120 255 0 0 ?s 3 "1 / 5"] h
  show ?thesis
    by (auto simp: normal_values_pairs Let_def sunny_day_def sunny_times_def unrefreshed_def)
qed

text \<open>
  Claim C5. In Normal mode an interpolated brightness \<open>br\<close> above 255 is commanded as
  255 and the kelvin becomes \<open>ct + (br - 255) * 6\<close>; otherwise both are commanded as
  interpolated. The brightness of the command towards the next key point is 255 when the
  next key point's brightness exceeds 255.
\<close>

theorem normal_brightness_clamp:
  assumes "mode s = ''Normal''" and "trip_points s ''Normal'' = Some tp"
    and "find_trip_points tp (now s) = Inr (prv, nxt)"
    and "py_get tp prv = Inr (prev_time, [pk, pb])"
    and "py_get tp (int nxt) = Inr (next_time, [nk, nb])"
    and "next_time \<noteq> prev_time"
    and "r = of_int (now s - prev_time) / of_int (next_time - prev_time)"
    and "br_prev = of_int pb / 255 * of_int (brightness s + brightness_override s)"
    and "br_next = of_int nb / 255 * of_int (brightness s + brightness_override s)"
    and "ct_prev = of_int pk - (5000 - of_int pk) * (1 - of_int pb / 255) * (35 / 100)"
    and "ct_next = of_int nk - (5000 - of_int nk) * (1 - of_int nb / 255) * (35 / 100)"
    and "br = (br_next - br_prev) * r + br_prev"
    and "ct = (ct_next - ct_prev) * r + ct_prev"
  shows "\<exists>s' t2. turn_on_curve rnd tr s = (None, s')
     \<and> calls s' = calls s @
          [Light_turn_on (entity s) (if br > 255 then 255 else br)
             (Kelvin (if br > 255 then ct + (br - 255) * 6 else ct)) tr]
     \<and> tasks s' = tasks s @
          [Delay_call rnd
             (Light_turn_on (entity s) (if br_next > 255 then 255 else br_next) (Kelvin ct_next)
                (of_int (td_seconds (next_time - now s)))), t2]"
proof -
  have v: "normal_values [pk, pb] [nk, nb] (brightness s) (brightness_override s)
             (of_int (now s - prev_time) / of_int (next_time - prev_time))
           = Inr (if br > 255 then 255 else br, if br > 255 then ct + (br - 255) * 6 else ct,
                  if br_next > 255 then 255 else br_next, ct_next)"
    unfolding assms(7-13) by (simp add: normal_values_pairs Let_def)
  from turn_on_curve_Normal [OF assms(1-6) v, of rnd tr] show ?thesis
    by (simp add: armed_def)
qed

theorem normal_brightness_clamp_witness:
  "mode (sunny_day\<lparr>brightness_override := 20\<rparr>) = ''Normal''
   \<and> find_trip_points (normal_anchors sunny_times) (now (sunny_day\<lparr>brightness_override := 20\<rparr>))
        = Inr (4, 5)
   \<and> py_get (normal_anchors sunny_times) 4 = Inr (23400000000, [4700, 255])
   \<and> py_get (normal_anchors sunny_times) (int 5) = Inr (59400000000, [4200, 255])
   \<and> (275 :: rat) = of_int 255 / 255 * of_int (255 + 20)
   \<and> calls (snd (turn_on_curve 3 (1 / 5) (sunny_day\<lparr>brightness_override := 20\<rparr>)))
        = [Light_turn_on ''light.living_room'' 255 (Kelvin 4545) (1 / 5)]
   \<and> hd (tasks (snd (turn_on_curve 3 (1 / 5) (sunny_day\<lparr>brightness_override := 20\<rparr>))))
        = Delay_call 3 (Light_turn_on ''light.living_room'' 255 (Kelvin 4200) 16200)"
proof -
  let ?s = "sunny_day\<lparr>brightness_override := 20\<rparr>"
  have m: "mode ?s = ''Normal''" by (simp add: sunny_day_def)
  have t: "trip_points ?s ''Normal'' = Some (normal_anchors sunny_times)"
    by (simp add: sunny_day_def)
  have f: "find_trip_points (normal_anchors sunny_times) (now ?s) = Inr (4, 5)"
    by (simp add: find_trip_points_def find_next.simps normal_anchors_def sunny_day_def
        sunny_times_def unrefreshed_def timedelta_minutes_def)
  have p: "py_get (normal_anchors sunny_times) 4 = Inr (23400000000, [4700, 255])"
    by (simp add: py_get_def normal_anchors_def sunny_times_def unrefreshed_def
        timedelta_minutes_def)
  have n: "py_get (normal_anchors sunny_times) (int 5) = Inr (59400000000, [4200, 255])"
    by (simp add: py_get_def normal_anchors_def sunny_times_def unrefreshed_def
        timedelta_minutes_def)
  have ne: "(59400000000 :: int) \<noteq> 23400000000" by simp
  from normal_brightness_clamp [OF m t f p n ne refl refl refl refl refl refl refl, of 3 "1 / 5"]
    m f p n
  show ?thesis
    by (auto simp: sunny_day_def sunny_times_def unrefreshed_def td_seconds_def)
qed

subsection \<open>RGB modes\<close>

text \<open>
  Claim C6. In every mode other than Normal, for every bracketing pair with distinct
  timestamps, the immediate command carries, for each of R, G and B,
  \<open>prev + (next - prev) * ratio\<close>, and the requested brightness as it is.
\<close>

theorem rgb_mode_interpolation:
  assumes "mode s \<noteq> ''Normal''" and "trip_points s (mode s) = Some tp"
    and "find_trip_points tp (now s) = Inr (prv, nxt)"
    and "py_get tp prv = Inr (prev_time, [pr, pg, pb])"
    and "py_get tp (int nxt) = Inr (next_time, [nr, ng, nb])"
    and "next_time \<noteq> prev_time"
    and "ratio = of_int (now s - prev_time) / of_int (next_time - prev_time)"
  shows "\<exists>s'. turn_on_curve rnd tr s = (None, s')
     \<and> calls s' = calls s @
          [Light_turn_on (entity s) (of_int (brightness s))
             (Rgb_color [of_int pr + (of_int nr - of_int pr) * ratio,
                         of_int pg + (of_int ng - of_int pg) * ratio,
                         of_int pb + (of_int nb - of_int pb) * ratio]) tr]"
proof -
  have v: "rgb_values [pr, pg, pb] [nr, ng, nb]
             (of_int (now s - prev_time) / of_int (next_time - prev_time))
           = Inr [of_int pr + (of_int nr - of_int pr) * ratio,
                  of_int pg + (of_int ng - of_int pg) * ratio,
                  of_int pb + (of_int nb - of_int pb) * ratio]"
    unfolding assms(7) by (simp add: rgb_values_def bind_err_def py_get_def)
  from turn_on_curve_rgb [OF assms(1-6) v, of rnd tr] show ?thesis
    by (simp add: armed_def)
qed

theorem rgb_mode_interpolation_witness:
  "mode (sunny_day\<lparr>mode := ''One'', now := 60000000\<rparr>) \<noteq> ''Normal''
   \<and> trip_points (sunny_day\<lparr>mode := ''One'', now := 60000000\<rparr>) ''One''
        = Some [(0, [0, 104, 255]), (120000000, [255, 0, 255]), (240000000, [0, 104, 255])]
   \<and> find_trip_points [(0, [0, 104, 255]), (120000000, [255, 0, 255]), (240000000, [0, 104, 255])]
        60000000 = Inr (0, 1)
   \<and> calls (snd (turn_on_curve 3 (1 / 5) (sunny_day\<lparr>mode := ''One'', now := 60000000\<rparr>)))
        = [Light_turn_on ''light.living_room'' 255 (Rgb_color [255 / 2, 52, 255]) (1 / 5)]"
proof -
  let ?s = "sunny_day\<lparr>mode := ''One'', now := 60000000\<rparr>"
  let ?tp = "[(0, [0, 104, 255]), (120000000, [255, 0, 255]), (240000000, [0, 104, 255])]
               :: keypoint list"
  have m: "mode ?s \<noteq> ''Normal''" by simp
  have t: "trip_points ?s (mode ?s) = Some ?tp" by (simp add: sunny_day_def)
  have f: "find_trip_points ?tp (now ?s) = Inr (0, 1)"
    by (simp add: find_trip_points_def find_next.simps)
  have p: "py_get ?tp 0 = Inr (0, [0, 104, 255])" by (simp add: py_get_def)
  have n: "py_get ?tp (int 1) = Inr (120000000, [255, 0, 255])" by (simp add: py_get_def)
  have ne: "(120000000 :: int) \<noteq> 0" by simp
  from rgb_mode_interpolation [OF m t f p n ne refl, of 3 "1 / 5"] m t f
  show ?thesis
    by (auto simp: sunny_day_def sunny_times_def unrefreshed_def)
qed

lemma turn_on_returns: "\<exists>r s'. turn_on e kw s = Some (r, s')"
  by (simp add: turn_on_closed Let_def)

lemma turn_on_calls_returns: "\<exists>s'. turn_on_calls cs s = Some s'"
proof (induction cs arbitrary: s)
  case Nil
  show ?case by simp
next
  case (Cons c cs)
  obtain e kw where c: "c = (e, kw)" by (cases c)
  from turn_on_returns [of e kw s] obtain r s1 where "turn_on e kw s = Some (r, s1)" by blast
  with c Cons.IH [of s1] show ?case by simp
qed

lemma turn_on_calls_snoc:
  "turn_on_calls cs s = Some s1 \<Longrightarrow> turn_on e kw s1 = Some (r, s2)
     \<Longrightarrow> turn_on_calls (cs @ [(e, kw)]) s = Some s2"
proof (induction cs arbitrary: s)
  case Nil
  then show ?case by simp
next
  case (Cons c cs)
  obtain e' kw' where c: "c = (e', kw')" by (cases c)
  from Cons.prems(1) c obtain r' s' where t: "turn_on e' kw' s = Some (r', s')"
    and rest: "turn_on_calls cs s' = Some s1"
    by (auto split: option.splits)
  from Cons.IH [OF rest Cons.prems(2)] t c show ?case by simp
qed

lemma turn_on_fresh_chain:
  assumes "kwargs_get (kw_nocancel kw) False = False" and "turn_on e kw s = Some (r, s2)"
  shows "set (currSched s) \<subseteq> set (cancelled s2)
     \<and> set (currSched s2) \<subseteq> {length (tasks s)..<length (tasks s2)}"
proof -
  let ?s3 = "(refreshed e (cancelSched s))\<lparr>mode := kwargs_get (kw_mode kw) ''Normal'',
                brightness := kwargs_get (kw_brightness kw) 255,
                brightness_override := kwargs_get (kw_brightness_override kw) 0\<rparr>"
  have s3: "currSched ?s3 = []" "cancelled ?s3 = cancelled s @ currSched s" "tasks ?s3 = tasks s"
    by (simp_all add: cancelSched_closed)
  show ?thesis
  proof (cases "kwargs_get (kw_brightness kw) 255 = 0")
    case True
    with assms have "s2 = disable_and_turn_off kw ?s3"
      by (simp add: turn_on_closed Let_def)
    then show ?thesis
      by (simp add: disable_and_turn_off_def async_call_def cancelSched_closed Let_def)
  next
    case False
    with assms have c: "turn_on_curve (randrange_1_5 e)
        (kwargs_get (kw_transition kw) (on_transition ?s3)) ?s3 = (r, s2)"
      by (simp add: turn_on_closed Let_def)
    show ?thesis
    proof (cases r)
      case None
      with c turn_on_curve_success obtain c1 t1 t2 where "s2 = armed ?s3 c1 t1 t2" by blast
      then show ?thesis by (simp add: armed_def cancelSched_closed)
    next
      case (Some err)
      with c turn_on_curve_error have "s2 = ?s3" by blast
      with s3 show ?thesis by simp
    qed
  qed
qed

subsection \<open>The transition chain\<close>

text \<open>
  Claim C7. A call of \<^verbatim>\<open>turn_on\<close> without \<^verbatim>\<open>nocancel\<close>, after any sequence of earlier
  calls, returns; every handle that was pending before it is cancelled, and the
  pending-schedule collection it leaves holds only handles of tasks that this call
  created.
\<close>

theorem turn_on_calls_latest_chain:
  assumes "kwargs_get (kw_nocancel kw) False = False"
  shows "\<exists>s1 r s2. turn_on_calls cs s = Some s1 \<and> turn_on e kw s1 = Some (r, s2)
     \<and> turn_on_calls (cs @ [(e, kw)]) s = Some s2
     \<and> set (currSched s1) \<subseteq> set (cancelled s2)
     \<and> set (currSched s2) \<subseteq> {length (tasks s1)..<length (tasks s2)}"
proof -
  from turn_on_calls_returns obtain s1 where a: "turn_on_calls cs s = Some s1" by blast
  from turn_on_returns obtain r s2 where b: "turn_on e kw s1 = Some (r, s2)" by blast
  from turn_on_calls_snoc [OF a b] turn_on_fresh_chain [OF assms b] a b show ?thesis by blast
qed

theorem turn_on_calls_latest_chain_witness:
  "kwargs_get (kw_nocancel no_kwargs) False = False
   \<and> (\<exists>s1 r s2. turn_on_calls [(at_time 43200000000, no_kwargs)] living_room = Some s1
        \<and> turn_on (at_time 43260000000) no_kwargs s1 = Some (r, s2)
        \<and> turn_on_calls ([(at_time 43200000000, no_kwargs)] @ [(at_time 43260000000, no_kwargs)])
             living_room = Some s2
        \<and> set (currSched s1) \<subseteq> set (cancelled s2)
        \<and> set (currSched s2) \<subseteq> {length (tasks s1)..<length (tasks s2)})"
proof -
  have h: "kwargs_get (kw_nocancel no_kwargs) False = False"
    by (simp add: no_kwargs_def kwargs_get_def)
  from turn_on_calls_latest_chain [OF h] h show ?thesis by blast
qed

lemma turn_on_cycle:
  assumes "turn_on e kw s = Some (None, s')" and "kwargs_get (kw_brightness kw) 255 \<noteq> 0"
  shows "\<exists>s3 tp nxt c1 c2.
      s3 = (refreshed e (if kwargs_get (kw_nocancel kw) False then s else cancelSched s))
             \<lparr>mode := kwargs_get (kw_mode kw) ''Normal'',
              brightness := kwargs_get (kw_brightness kw) 255,
              brightness_override := kwargs_get (kw_brightness_override kw) 0\<rparr>
      \<and> trip_points s3 (mode s3) = Some tp
      \<and> find_trip_points tp (now s3) = Inr (int nxt - 1, nxt)
      \<and> s' = armed s3 c1 (Delay_call (randrange_1_5 e) c2)
                (Delay_turn_on (td_seconds (fst (tp ! nxt) - now s3) + 1) (rearm_kwargs s3))"
proof -
  let ?s3 = "(refreshed e (if kwargs_get (kw_nocancel kw) False then s else cancelSched s))
             \<lparr>mode := kwargs_get (kw_mode kw) ''Normal'',
              brightness := kwargs_get (kw_brightness kw) 255,
              brightness_override := kwargs_get (kw_brightness_override kw) 0\<rparr>"
  from assms have "turn_on_curve (randrange_1_5 e)
        (kwargs_get (kw_transition kw) (on_transition ?s3)) ?s3 = (None, s')"
    by (simp add: turn_on_closed Let_def)
  from turn_on_curve_success [OF this] show ?thesis by blast
qed

text \<open>
  Claim C8, as amended. A call of \<^verbatim>\<open>turn_on\<close> with a brightness other than 0 that
  returns normally issues the immediate set as a service call of its own, which is no
  task and has no handle, and registers two handles, in this order: the drift-correction
  set and the re-arm.
\<close>

theorem turn_on_registers_two_handles:
  assumes "turn_on e kw s = Some (None, s')" and "kwargs_get (kw_brightness kw) 255 \<noteq> 0"
  shows "\<exists>c1 c2 d kw'. calls s' = calls s @ [c1]
     \<and> tasks s' = tasks s @ [Delay_call (randrange_1_5 e) c2, Delay_turn_on d kw']
     \<and> currSched s' = (if kwargs_get (kw_nocancel kw) False then currSched s else [])
          @ [length (tasks s), Suc (length (tasks s))]"
proof -
  from turn_on_cycle [OF assms] obtain s3 c1 c2 d kw' where
    s3: "s3 = (refreshed e (if kwargs_get (kw_nocancel kw) False then s else cancelSched s))
             \<lparr>mode := kwargs_get (kw_mode kw) ''Normal'',
              brightness := kwargs_get (kw_brightness kw) 255,
              brightness_override := kwargs_get (kw_brightness_override kw) 0\<rparr>"
    and s': "s' = armed s3 c1 (Delay_call (randrange_1_5 e) c2) (Delay_turn_on d kw')"
    by blast
  have "calls s' = calls s @ [c1]"
    and "tasks s' = tasks s @ [Delay_call (randrange_1_5 e) c2, Delay_turn_on d kw']"
    and "currSched s' = (if kwargs_get (kw_nocancel kw) False then currSched s else [])
          @ [length (tasks s), Suc (length (tasks s))]"
    unfolding s' s3 by (simp_all add: armed_def cancelSched_closed)
  then show ?thesis by blast
qed

theorem turn_on_registers_two_handles_witness:
  "turn_on (at_time 43200000000) no_kwargs living_room = Some (None, after_noon_call)
   \<and> kwargs_get (kw_brightness no_kwargs) 255 \<noteq> 0
   \<and> (\<exists>c1 c2 d kw'. calls after_noon_call = calls living_room @ [c1]
        \<and> tasks after_noon_call
            = tasks living_room @ [Delay_call (randrange_1_5 (at_time 43200000000)) c2,
                                   Delay_turn_on d kw']
        \<and> currSched after_noon_call
            = (if kwargs_get (kw_nocancel no_kwargs) False then currSched living_room else [])
              @ [length (tasks living_room), Suc (length (tasks living_room))])"
proof -
  have h1: "turn_on (at_time 43200000000) no_kwargs living_room = Some (None, after_noon_call)"
    by (simp add: after_noon_call_def noon_call)
  have h2: "kwargs_get (kw_brightness no_kwargs) 255 \<noteq> 0"
    by (simp add: no_kwargs_def kwargs_get_def)
  from turn_on_registers_two_handles [OF h1 h2] h1 h2 show ?thesis by blast
qed

theorem immediate_set_not_registered_counterexample:
  "map_option fst (turn_on (at_time 43200000000) no_kwargs living_room) = Some None
   \<and> currSched living_room = []
   \<and> length (currSched (snd (the (turn_on (at_time 43200000000) no_kwargs living_room)))) = 2
   \<and> tasks (snd (the (turn_on (at_time 43200000000) no_kwargs living_room)))
       = [Delay_call 3 (Light_turn_on ''light.living_room'' 255 (Kelvin 4200) 16200),
          Delay_turn_on 16201
            \<lparr>kw_nocancel = Some True, kw_mode = None, kw_brightness = Some 255,
             kw_brightness_override = Some 0, kw_transition = None\<rparr>]
   \<and> calls (snd (the (turn_on (at_time 43200000000) no_kwargs living_room)))
       = [Light_turn_on ''light.living_room'' 255 (Kelvin 4425) (1 / 5)]"
proof -
  have "currSched living_room = []" by (simp add: living_room_eq)
  then show ?thesis by (simp add: noon_call armed_def)
qed

text \<open>
  Claim C9, as amended. The re-arm of a call that returns normally fires
  \<open>(next_time - now).seconds + 1\<close> seconds after its creation and calls \<^verbatim>\<open>turn_on\<close> with
  \<^verbatim>\<open>nocancel\<close> set, no transition, and keyword arguments that resolve to the same mode and
  the same brightness; they resolve to the same brightness override in Normal mode, and
  to 0 in every other mode, where the override is not passed on.
\<close>

theorem turn_on_rearm:
  assumes "turn_on e kw s = Some (None, s')" and "kwargs_get (kw_brightness kw) 255 \<noteq> 0"
  shows "\<exists>tp nxt c kw'. trip_points s' (mode s') = Some tp
     \<and> find_trip_points tp (now s') = Inr (int nxt - 1, nxt)
     \<and> tasks s' = tasks s @ [c, Delay_turn_on (td_seconds (fst (tp ! nxt) - now s') + 1) kw']
     \<and> kw_nocancel kw' = Some True
     \<and> kwargs_get (kw_mode kw') ''Normal'' = kwargs_get (kw_mode kw) ''Normal''
     \<and> kwargs_get (kw_brightness kw') 255 = kwargs_get (kw_brightness kw) 255
     \<and> kwargs_get (kw_brightness_override kw') 0
          = (if kwargs_get (kw_mode kw) ''Normal'' = ''Normal''
             then kwargs_get (kw_brightness_override kw) 0 else 0)
     \<and> kw_transition kw' = None"
proof -
  from turn_on_cycle [OF assms] obtain s3 tp nxt c1 c2 where
    s3: "s3 = (refreshed e (if kwargs_get (kw_nocancel kw) False then s else cancelSched s))
             \<lparr>mode := kwargs_get (kw_mode kw) ''Normal'',
              brightness := kwargs_get (kw_brightness kw) 255,
              brightness_override := kwargs_get (kw_brightness_override kw) 0\<rparr>"
    and tp: "trip_points s3 (mode s3) = Some tp"
    and f: "find_trip_points tp (now s3) = Inr (int nxt - 1, nxt)"
    and s': "s' = armed s3 c1 (Delay_call (randrange_1_5 e) c2)
                (Delay_turn_on (td_seconds (fst (tp ! nxt) - now s3) + 1) (rearm_kwargs s3))"
    by blast
  let ?kw' = "rearm_kwargs s3"
  have fr: "trip_points s' = trip_points s3" "mode s' = mode s3" "now s' = now s3"
    unfolding s' by (simp_all add: armed_def)
  have m: "mode s3 = kwargs_get (kw_mode kw) ''Normal''"
    and b: "brightness s3 = kwargs_get (kw_brightness kw) 255"
    and o: "brightness_override s3 = kwargs_get (kw_brightness_override kw) 0"
    and ts: "tasks s3 = tasks s"
    unfolding s3 by (simp_all add: cancelSched_closed)
  have 1: "trip_points s' (mode s') = Some tp" using tp fr by simp
  have 2: "find_trip_points tp (now s') = Inr (int nxt - 1, nxt)" using f fr by simp
  have 3: "tasks s' = tasks s @ [Delay_call (randrange_1_5 e) c2,
              Delay_turn_on (td_seconds (fst (tp ! nxt) - now s') + 1) ?kw']"
    unfolding s' using ts by (simp add: armed_def)
  have 4: "kw_nocancel ?kw' = Some True" and 8: "kw_transition ?kw' = None"
    by (simp_all add: rearm_kwargs_def)
  have 5: "kwargs_get (kw_mode ?kw') ''Normal'' = kwargs_get (kw_mode kw) ''Normal''"
    using m by (simp add: rearm_kwargs_def kwargs_get_def)
  have 6: "kwargs_get (kw_brightness ?kw') 255 = kwargs_get (kw_brightness kw) 255"
    using b by (simp add: rearm_kwargs_def kwargs_get_def)
  have 7: "kwargs_get (kw_brightness_override ?kw') 0
          = (if kwargs_get (kw_mode kw) ''Normal'' = ''Normal''
             then kwargs_get (kw_brightness_override kw) 0 else 0)"
    using m o by (simp add: rearm_kwargs_def kwargs_get_def)
  from 1 2 3 4 5 6 7 8 show ?thesis by blast
qed

lemma one_curve:
  "length (cyclic_curve 0 86399000000 120000000 one_trip_points) = 720"
  "cyclic_curve 0 86399000000 120000000 one_trip_points ! 0 = (0, [0, 104, 255])"
  "cyclic_curve 0 86399000000 120000000 one_trip_points ! Suc 0 = (120000000, [255, 0, 255])"
  "cyclic_curve 0 86399000000 120000000 one_trip_points \<noteq> []"
proof -
  have n: "nat \<lceil>of_int (86399000000 - 0) / (of_int 120000000 :: real)\<rceil> = 720" by simp
  show "length (cyclic_curve 0 86399000000 120000000 one_trip_points) = 720"
    unfolding cyclic_curve_def n by simp
  then show "cyclic_curve 0 86399000000 120000000 one_trip_points \<noteq> []" by auto
  show "cyclic_curve 0 86399000000 120000000 one_trip_points ! 0 = (0, [0, 104, 255])"
    unfolding cyclic_curve_def n by (simp add: one_trip_points_def)
  show "cyclic_curve 0 86399000000 120000000 one_trip_points ! Suc 0 = (120000000, [255, 0, 255])"
    unfolding cyclic_curve_def n by (simp add: one_trip_points_def)
qed

lemma one_call:
  "turn_on (at_time 60000000) one_kwargs living_room =
     Some (None, armed ((sunny_at 60000000)\<lparr>mode := ''One'', brightness := 255,
                          brightness_override := 10\<rparr>)
       (Light_turn_on ''light.living_room'' 255 (Rgb_color [255 / 2, 52, 255]) (1 / 5))
       (Delay_call 3 (Light_turn_on ''light.living_room'' 255 (Rgb_color [255, 0, 255]) 60))
       (Delay_turn_on 61
          \<lparr>kw_nocancel = Some True, kw_mode = Some ''One'', kw_brightness = Some 255,
           kw_brightness_override = None, kw_transition = None\<rparr>))"
proof -
  let ?s = "(sunny_at 60000000)\<lparr>mode := ''One'', brightness := 255, brightness_override := 10\<rparr>"
  let ?tp = "cyclic_curve 0 86399000000 120000000 one_trip_points"
  have "find_next ?tp 60000000 (0 + 1) = 1"
    by (subst find_next.simps) (simp add: one_curve)
  then have "find_next ?tp 60000000 0 = 1"
    by (subst find_next.simps) (simp add: one_curve)
  then have f: "find_trip_points ?tp (now ?s) = Inr (0, 1)"
    by (simp add: find_trip_points_def one_curve)
  have p: "py_get ?tp 0 = Inr (0, [0, 104, 255])" by (simp add: py_get_def one_curve)
  have n: "py_get ?tp (int 1) = Inr (120000000, [255, 0, 255])"
    by (simp add: py_get_def one_curve)
  have v: "rgb_values [0, 104, 255] [255, 0, 255] (of_int (now ?s - 0) / of_int (120000000 - 0))
     = Inr [255 / 2, 52, 255]"
    by (simp add: rgb_values_def bind_err_def py_get_def)
  have m: "mode ?s \<noteq> ''Normal''" by simp
  have t: "trip_points ?s (mode ?s) = Some ?tp" by simp
  have "turn_on_curve 3 (1 / 5) ?s = (None, armed ?s
       (Light_turn_on ''light.living_room'' 255 (Rgb_color [255 / 2, 52, 255]) (1 / 5))
       (Delay_call 3 (Light_turn_on ''light.living_room'' 255 (Rgb_color [255, 0, 255]) 60))
       (Delay_turn_on 61
          \<lparr>kw_nocancel = Some True, kw_mode = Some ''One'', kw_brightness = Some 255,
           kw_brightness_override = None, kw_transition = None\<rparr>))"
    using turn_on_curve_rgb [OF m t f p n _ v, of 3 "1 / 5"]
    by (simp add: td_seconds_def rearm_kwargs_def)
  then show ?thesis
    by (simp add: turn_on_living_room day_us_def one_kwargs_def no_kwargs_def kwargs_get_def)
qed

theorem turn_on_rearm_witness:
  "turn_on (at_time 60000000) one_kwargs living_room = Some (None, after_one_call)
   \<and> kwargs_get (kw_brightness one_kwargs) 255 \<noteq> 0
   \<and> tasks after_one_call ! 1
        = Delay_turn_on 61
            \<lparr>kw_nocancel = Some True, kw_mode = Some ''One'', kw_brightness = Some 255,
             kw_brightness_override = None, kw_transition = None\<rparr>
   \<and> (\<exists>tp nxt c kw'. trip_points after_one_call (mode after_one_call) = Some tp
        \<and> find_trip_points tp (now after_one_call) = Inr (int nxt - 1, nxt)
        \<and> tasks after_one_call
            = tasks living_room
              @ [c, Delay_turn_on (td_seconds (fst (tp ! nxt) - now after_one_call) + 1) kw']
        \<and> kw_nocancel kw' = Some True
        \<and> kwargs_get (kw_mode kw') ''Normal'' = kwargs_get (kw_mode one_kwargs) ''Normal''
        \<and> kwargs_get (kw_brightness kw') 255 = kwargs_get (kw_brightness one_kwargs) 255)"
proof -
  have h1: "turn_on (at_time 60000000) one_kwargs living_room = Some (None, after_one_call)"
    by (simp add: after_one_call_def one_call)
  have h2: "kwargs_get (kw_brightness one_kwargs) 255 \<noteq> 0"
    by (simp add: one_kwargs_def no_kwargs_def kwargs_get_def)
  have t: "tasks after_one_call ! 1
        = Delay_turn_on 61
            \<lparr>kw_nocancel = Some True, kw_mode = Some ''One'', kw_brightness = Some 255,
             kw_brightness_override = None, kw_transition = None\<rparr>"
    by (simp add: after_one_call_def one_call armed_def)
  from turn_on_rearm [OF h1 h2] h1 h2 t show ?thesis by blast
qed

lemma turn_on_sets_override:
  "turn_on e kw s = Some (r, s') \<Longrightarrow> kwargs_get (kw_brightness kw) 255 \<noteq> 0
     \<Longrightarrow> brightness_override s' = kwargs_get (kw_brightness_override kw) 0"
proof -
  assume a: "turn_on e kw s = Some (r, s')" and b: "kwargs_get (kw_brightness kw) 255 \<noteq> 0"
  let ?s3 = "(refreshed e (if kwargs_get (kw_nocancel kw) False then s else cancelSched s))
             \<lparr>mode := kwargs_get (kw_mode kw) ''Normal'',
              brightness := kwargs_get (kw_brightness kw) 255,
              brightness_override := kwargs_get (kw_brightness_override kw) 0\<rparr>"
  from a b have c: "turn_on_curve (randrange_1_5 e)
        (kwargs_get (kw_transition kw) (on_transition ?s3)) ?s3 = (r, s')"
    by (simp add: turn_on_closed Let_def)
  show ?thesis
  proof (cases r)
    case None
    with c turn_on_curve_success obtain c1 t1 t2 where "s' = armed ?s3 c1 t1 t2" by blast
    then show ?thesis by (simp add: armed_def)
  next
    case (Some err)
    with c turn_on_curve_error have "s' = ?s3" by blast
    then show ?thesis by simp
  qed
qed

theorem rearm_drops_override_counterexample:
  "map_option fst (turn_on (at_time 60000000) one_kwargs living_room) = Some None
   \<and> kw_mode one_kwargs = Some ''One'' \<and> kw_brightness_override one_kwargs = Some 10
   \<and> brightness_override after_one_call = 10
   \<and> tasks after_one_call ! 1
        = Delay_turn_on 61
            \<lparr>kw_nocancel = Some True, kw_mode = Some ''One'', kw_brightness = Some 255,
             kw_brightness_override = None, kw_transition = None\<rparr>
   \<and> map_option (brightness_override \<circ> snd)
        (delay_run (at_time 121000000) (tasks after_one_call ! 1) after_one_call) = Some 0"
proof -
  let ?kw = "\<lparr>kw_nocancel = Some True, kw_mode = Some ''One'', kw_brightness = Some 255,
             kw_brightness_override = None, kw_transition = None\<rparr>"
  have t: "tasks after_one_call ! 1 = Delay_turn_on 61 ?kw"
    by (simp add: after_one_call_def one_call armed_def)
  have o: "brightness_override after_one_call = 10"
    by (simp add: after_one_call_def one_call armed_def)
  obtain r s' where r: "turn_on (at_time 121000000) ?kw after_one_call = Some (r, s')"
    using turn_on_returns by blast
  from turn_on_sets_override [OF r] have "brightness_override s' = 0"
    by (simp add: kwargs_get_def)
  with r t have "map_option (brightness_override \<circ> snd)
        (delay_run (at_time 121000000) (tasks after_one_call ! 1) after_one_call) = Some 0"
    by (simp add: delay_run_def)
  moreover have "map_option fst (turn_on (at_time 60000000) one_kwargs living_room) = Some None"
    by (simp add: one_call)
  moreover have "kw_mode one_kwargs = Some ''One''"
    and "kw_brightness_override one_kwargs = Some 10"
    by (simp_all add: one_kwargs_def)
  ultimately show ?thesis using t o by (intro conjI)
qed

subsection \<open>The end of the day\<close>

lemma one_curve_nth:
  assumes "j < 720"
  shows "cyclic_curve 0 86399000000 120000000 one_trip_points ! j
           = (int j * 120000000, one_trip_points ! (j mod length one_trip_points))"
proof -
  have n: "nat \<lceil>of_int (86399000000 - 0) / (of_int 120000000 :: real)\<rceil> = 720" by simp
  show ?thesis unfolding cyclic_curve_def n using assms by simp
qed

lemma one_curve_last_pair:
  "cyclic_curve 0 86399000000 120000000 one_trip_points ! 718 = (86160000000, [0, 104, 255])"
  "cyclic_curve 0 86399000000 120000000 one_trip_points ! 719 = (86280000000, [255, 0, 255])"
proof -
  have l: "length one_trip_points = 2" by (simp add: one_trip_points_def)
  have m: "(718 :: nat) mod 2 = 0" "(719 :: nat) mod 2 = 1" by simp_all
  show "cyclic_curve 0 86399000000 120000000 one_trip_points ! 718
          = (86160000000, [0, 104, 255])"
    using one_curve_nth [of 718] unfolding l m by (simp add: one_trip_points_def)
  show "cyclic_curve 0 86399000000 120000000 one_trip_points ! 719
          = (86280000000, [255, 0, 255])"
    using one_curve_nth [of 719] unfolding l m by (simp add: one_trip_points_def)
qed

lemma one_curve_find_next_late:
  assumes "86160000000 < t" and "t \<le> 86280000000"
  shows "find_next (cyclic_curve 0 86399000000 120000000 one_trip_points) t 0 = 719"
proof -
  let ?tp = "cyclic_curve 0 86399000000 120000000 one_trip_points"
  let ?n = "find_next ?tp t 0"
  have len: "0 < length ?tp" by (simp add: one_curve)
  from find_next_bounds [OF len, of t] have b: "?n < 720" by (simp add: one_curve)
  have "t \<le> fst (?tp ! 719)" using assms by (simp add: one_curve_last_pair)
  then have "t \<le> fst (?tp ! ?n)"
    using find_next_found [of 0 719 ?tp t] by (simp add: one_curve)
  with b have "t \<le> int ?n * 120000000" by (simp add: one_curve_nth)
  with assms(1) have "718 < ?n" by linarith
  with b show ?thesis by linarith
qed

lemma one_curve_find_next_exhausted:
  assumes "86280000000 < t"
  shows "find_next (cyclic_curve 0 86399000000 120000000 one_trip_points) t 0 = 719"
proof -
  let ?tp = "cyclic_curve 0 86399000000 120000000 one_trip_points"
  have len: "0 < length ?tp" by (simp add: one_curve)
  have "\<forall>j. 0 \<le> j \<and> j < length ?tp \<longrightarrow> fst (?tp ! j) < t"
    using assms by (auto simp: one_curve one_curve_nth)
  from find_next_exhausted [OF len this] show ?thesis by (simp add: one_curve)
qed

lemma one_curve_max:
  "Max (set (map fst (cyclic_curve 0 86399000000 120000000 one_trip_points))) < 86281000000"
proof -
  let ?tp = "cyclic_curve 0 86399000000 120000000 one_trip_points"
  have ne: "set (map fst ?tp) \<noteq> {}" using one_curve(4) by simp
  have "\<forall>a\<in>set (map fst ?tp). a < 86281000000"
  proof
    fix a assume "a \<in> set (map fst ?tp)"
    then obtain j where "j < length ?tp" and "a = fst (?tp ! j)"
      by (auto simp: in_set_conv_nth)
    then show "a < 86281000000" by (simp add: one_curve one_curve_nth)
  qed
  then show ?thesis using ne by (simp add: Max_less_iff)
qed

lemma first_late_call:
  "turn_on (at_time 86161000000) plain_one_kwargs living_room =
     Some (None, armed ((sunny_at 86161000000)\<lparr>mode := ''One'', brightness := 255,
                          brightness_override := 0\<rparr>)
       (Light_turn_on ''light.living_room'' 255 (Rgb_color [17 / 8, 1547 / 15, 255]) (1 / 5))
       (Delay_call 3 (Light_turn_on ''light.living_room'' 255 (Rgb_color [255, 0, 255]) 119))
       (Delay_turn_on 120
          \<lparr>kw_nocancel = Some True, kw_mode = Some ''One'', kw_brightness = Some 255,
           kw_brightness_override = None, kw_transition = None\<rparr>))"
proof -
  let ?s = "(sunny_at 86161000000)\<lparr>mode := ''One'', brightness := 255, brightness_override := 0\<rparr>"
  let ?tp = "cyclic_curve 0 86399000000 120000000 one_trip_points"
  have f: "find_trip_points ?tp (now ?s) = Inr (718, 719)"
    by (simp add: find_trip_points_def one_curve one_curve_find_next_late)
  have p: "py_get ?tp 718 = Inr (86160000000, [0, 104, 255])"
    by (simp add: py_get_def one_curve one_curve_last_pair)
  have n: "py_get ?tp (int 719) = Inr (86280000000, [255, 0, 255])"
    by (simp add: py_get_def one_curve one_curve_last_pair)
  have v: "rgb_values [0, 104, 255] [255, 0, 255]
             (of_int (now ?s - 86160000000) / of_int (86280000000 - 86160000000))
     = Inr [17 / 8, 1547 / 15, 255]"
    by (simp add: rgb_values_def bind_err_def py_get_def)
  have m: "mode ?s \<noteq> ''Normal''" by simp
  have t: "trip_points ?s (mode ?s) = Some ?tp" by simp
  have "turn_on_curve 3 (1 / 5) ?s = (None, armed ?s
       (Light_turn_on ''light.living_room'' 255 (Rgb_color [17 / 8, 1547 / 15, 255]) (1 / 5))
       (Delay_call 3 (Light_turn_on ''light.living_room'' 255 (Rgb_color [255, 0, 255]) 119))
       (Delay_turn_on 120
          \<lparr>kw_nocancel = Some True, kw_mode = Some ''One'', kw_brightness = Some 255,
           kw_brightness_override = None, kw_transition = None\<rparr>))"
    using turn_on_curve_rgb [OF m t f p n _ v, of 3 "1 / 5"]
    by (simp add: td_seconds_def rearm_kwargs_def)
  then show ?thesis
    by (simp add: turn_on_living_room day_us_def plain_one_kwargs_def no_kwargs_def
        kwargs_get_def)
qed

lemma late_one_call_fields:
  "tasks late_one_call
     = [Delay_call 3 (Light_turn_on ''light.living_room'' 255 (Rgb_color [255, 0, 255]) 119),
        Delay_turn_on 120
          \<lparr>kw_nocancel = Some True, kw_mode = Some ''One'', kw_brightness = Some 255,
           kw_brightness_override = None, kw_transition = None\<rparr>]"
  "calls late_one_call
     = [Light_turn_on ''light.living_room'' 255 (Rgb_color [17 / 8, 1547 / 15, 255]) (1 / 5)]"
  "currSched late_one_call = [0, 1]"
  "today late_one_call = Some 0"
  "entity late_one_call = ''light.living_room''"
  "on_transition late_one_call = 1 / 5"
  "trip_points late_one_call ''One''
     = Some (cyclic_curve 0 86399000000 120000000 one_trip_points)"
  by (simp_all add: late_one_call_def first_late_call armed_def)
     (simp add: sunny_at_def sunny_times_def unrefreshed_def)

lemma rearm_after_last_key_point:
  "turn_on (at_time 86281000000)
     \<lparr>kw_nocancel = Some True, kw_mode = Some ''One'', kw_brightness = Some 255,
      kw_brightness_override = None, kw_transition = None\<rparr> late_one_call =
     Some (None, armed (late_one_call\<lparr>now := 86281000000, today := Some 0, mode := ''One'',
                          brightness := 255, brightness_override := 0\<rparr>)
       (Light_turn_on ''light.living_room'' 255 (Rgb_color [2057 / 8, - (13 / 15), 255]) (1 / 5))
       (Delay_call 3 (Light_turn_on ''light.living_room'' 255 (Rgb_color [255, 0, 255]) 86399))
       (Delay_turn_on 86400
          \<lparr>kw_nocancel = Some True, kw_mode = Some ''One'', kw_brightness = Some 255,
           kw_brightness_override = None, kw_transition = None\<rparr>))"
proof -
  let ?kw = "\<lparr>kw_nocancel = Some True, kw_mode = Some ''One'', kw_brightness = Some 255,
      kw_brightness_override = None, kw_transition = None\<rparr>"
  let ?s = "late_one_call\<lparr>now := 86281000000, today := Some 0, mode := ''One'',
                          brightness := 255, brightness_override := 0\<rparr>"
  let ?tp = "cyclic_curve 0 86399000000 120000000 one_trip_points"
  have f: "find_trip_points ?tp (now ?s) = Inr (718, 719)"
    by (simp add: find_trip_points_def one_curve one_curve_find_next_exhausted)
  have p: "py_get ?tp 718 = Inr (86160000000, [0, 104, 255])"
    by (simp add: py_get_def one_curve one_curve_last_pair)
  have n: "py_get ?tp (int 719) = Inr (86280000000, [255, 0, 255])"
    by (simp add: py_get_def one_curve one_curve_last_pair)
  have v: "rgb_values [0, 104, 255] [255, 0, 255]
             (of_int (now ?s - 86160000000) / of_int (86280000000 - 86160000000))
     = Inr [2057 / 8, - (13 / 15), 255]"
    by (simp add: rgb_values_def bind_err_def py_get_def)
  have m: "mode ?s \<noteq> ''Normal''" by simp
  have t: "trip_points ?s (mode ?s) = Some ?tp" by (simp add: late_one_call_fields)
  have c: "turn_on_curve 3 (1 / 5) ?s = (None, armed ?s
       (Light_turn_on ''light.living_room'' 255 (Rgb_color [2057 / 8, - (13 / 15), 255]) (1 / 5))
       (Delay_call 3 (Light_turn_on ''light.living_room'' 255 (Rgb_color [255, 0, 255]) 86399))
       (Delay_turn_on 86400 ?kw))"
    using turn_on_curve_rgb [OF m t f p n _ v, of 3 "1 / 5"]
    by (simp add: td_seconds_def rearm_kwargs_def late_one_call_fields)
  have r: "(refreshed (at_time 86281000000) late_one_call)\<lparr>mode := ''One'', brightness := 255,
             brightness_override := 0\<rparr> = ?s"
    by (simp add: refreshed_def at_time_def late_one_call_fields)
  show ?thesis
    by (simp add: turn_on_closed Let_def kwargs_get_def r late_one_call_fields)
       (simp add: at_time_def c)
qed

text \<open>
  Claim C2, which the code does not meet. The claim asks that a scan which finds no key
  point at or after \<^verbatim>\<open>now\<close> fails and issues no command; the comments of \<^verbatim>\<open>turn_on\<close>
  say that the scan finds the trip points around the current time and that the re-arm
  starts the next transition at \<^verbatim>\<open>next_time\<close>. The last key point of the curve of One is
  at 23:58:00. The re-arm created by a call at 23:56:01 fires at 23:58:01, after every
  key point of the day: the scan stays at the last pair (718, 719), nothing is raised,
  and the call sends the colour \<open>[2057/8, -13/15, 255]\<close>, extrapolated past the last key
  point and outside 0..255, a drift-correction transition of 86399 seconds and a re-arm
  86400 seconds later.
\<close>

theorem exhausted_scan_goes_on:
  "tasks late_one_call ! 1
     = Delay_turn_on 120
         \<lparr>kw_nocancel = Some True, kw_mode = Some ''One'', kw_brightness = Some 255,
          kw_brightness_override = None, kw_transition = None\<rparr>
   \<and> length one_curve_of_day = 720
   \<and> Max (set (map fst one_curve_of_day)) < 86281000000
   \<and> find_trip_points one_curve_of_day 86281000000 = Inr (718, 719)
   \<and> map_option fst
        (delay_run (at_time 86281000000) (tasks late_one_call ! 1) late_one_call) = Some None
   \<and> calls (snd (the
        (delay_run (at_time 86281000000) (tasks late_one_call ! 1) late_one_call)))
       = calls late_one_call
         @ [Light_turn_on ''light.living_room'' 255 (Rgb_color [2057 / 8, - (13 / 15), 255])
              (1 / 5)]
   \<and> drop 2 (tasks (snd (the
        (delay_run (at_time 86281000000) (tasks late_one_call ! 1) late_one_call))))
       = [Delay_call 3 (Light_turn_on ''light.living_room'' 255 (Rgb_color [255, 0, 255]) 86399),
          Delay_turn_on 86400
            \<lparr>kw_nocancel = Some True, kw_mode = Some ''One'', kw_brightness = Some 255,
             kw_brightness_override = None, kw_transition = None\<rparr>]"
proof -
  let ?kw = "\<lparr>kw_nocancel = Some True, kw_mode = Some ''One'', kw_brightness = Some 255,
      kw_brightness_override = None, kw_transition = None\<rparr>"
  have t: "tasks late_one_call ! 1 = Delay_turn_on 120 ?kw"
    by (simp add: late_one_call_fields)
  have c: "one_curve_of_day = cyclic_curve 0 86399000000 120000000 one_trip_points"
    by (simp add: one_curve_of_day_def late_one_call_fields)
  have f: "find_trip_points one_curve_of_day 86281000000 = Inr (718, 719)"
    unfolding c by (simp add: find_trip_points_def one_curve one_curve_find_next_exhausted)
  have d: "delay_run (at_time 86281000000) (tasks late_one_call ! 1) late_one_call
             = turn_on (at_time 86281000000) ?kw late_one_call"
    unfolding t by (simp add: delay_run_def)
  show ?thesis
    unfolding d rearm_after_last_key_point
    using t f one_curve_max one_curve(1)
    by (simp add: c armed_def late_one_call_fields)
qed

end
